theory Spec2Isabelle
  imports Complex_Main "HOL-Library.Sublist" "HOL-Library.Multiset"
begin

section \<open>The JavaScript values the dashboard computes with\<close>

text \<open>
  The dashboard (\<^verbatim>\<open>App.jsx\<close>, in two versions: one that aggregates an imported JSON
  payload in the browser, one that reads a precomputed payload) is written in
  JavaScript. Its pure computations are embedded here as HOL functions over a datatype
  of JavaScript values.

  Numbers are IEEE doubles in the program. Here a finite number is a real, arithmetic on
  finite numbers is exact, and the three non-finite values are kept, because the code
  tests for \<^verbatim>\<open>NaN\<close> and divides without a guard. Rounding, overflow to infinity and the
  sign of zero are not modelled.
\<close>

datatype jsnum = NaN | PosInf | NegInf | Fin real

text \<open>
  A value is what \<^verbatim>\<open>JSON.parse\<close> can yield, plus \<^verbatim>\<open>undefined\<close> (a missing field),
  the non-finite numbers, and \<open>Native\<close>: a built-in function or object of the runtime,
  by name, which the program can only obtain as an inherited member of
  \<^verbatim>\<open>Object.prototype\<close>. An object is the list of its own properties; a lookup takes
  the first binding of a key.
\<close>

datatype jsval =
    Undefined
  | Null
  | Bool bool
  | Num jsnum
  | Str string
  | Arr "jsval list"
  | Obj "(string \<times> jsval) list"
  | Native string

text \<open>Every exception the modelled code can raise is a \<^verbatim>\<open>TypeError\<close>.\<close>

datatype error = TypeError

definition bind_err :: "error + 'a \<Rightarrow> ('a \<Rightarrow> error + 'b) \<Rightarrow> error + 'b" where
  "bind_err m f = (case m of Inl e \<Rightarrow> Inl e | Inr x \<Rightarrow> f x)"

text \<open>\<^verbatim>\<open>xs.map(f)\<close> with a callback that may throw: the first exception ends the loop.\<close>

fun map_err :: "('a \<Rightarrow> error + 'b) \<Rightarrow> 'a list \<Rightarrow> error + 'b list" where
  "map_err f [] = Inr []"
| "map_err f (x # xs) =
     (case f x of
        Inl e \<Rightarrow> Inl e
      | Inr y \<Rightarrow> (case map_err f xs of Inl e \<Rightarrow> Inl e | Inr ys \<Rightarrow> Inr (y # ys)))"

text \<open>\<^verbatim>\<open>xs.filter(p)\<close> with a predicate that may throw.\<close>

fun filter_err :: "('a \<Rightarrow> error + bool) \<Rightarrow> 'a list \<Rightarrow> error + 'a list" where
  "filter_err p [] = Inr []"
| "filter_err p (x # xs) =
     (case p x of
        Inl e \<Rightarrow> Inl e
      | Inr b \<Rightarrow>
          (case filter_err p xs of
             Inl e \<Rightarrow> Inl e
           | Inr ys \<Rightarrow> Inr (if b then x # ys else ys)))"

text \<open>\<^verbatim>\<open>xs.forEach(step)\<close> over a mutable accumulator, with a body that may throw.\<close>

fun fold_err :: "('s \<Rightarrow> 'a \<Rightarrow> error + 's) \<Rightarrow> 's \<Rightarrow> 'a list \<Rightarrow> error + 's" where
  "fold_err step s [] = Inr s"
| "fold_err step s (x # xs) =
     (case step s x of Inl e \<Rightarrow> Inl e | Inr s' \<Rightarrow> fold_err step s' xs)"

subsection \<open>Arithmetic and comparison of numbers\<close>

fun js_neg :: "jsnum \<Rightarrow> jsnum" where
  "js_neg NaN = NaN"
| "js_neg PosInf = NegInf"
| "js_neg NegInf = PosInf"
| "js_neg (Fin x) = Fin (- x)"

fun js_add :: "jsnum \<Rightarrow> jsnum \<Rightarrow> jsnum" where
  "js_add NaN b = NaN"
| "js_add a NaN = NaN"
| "js_add PosInf NegInf = NaN"
| "js_add NegInf PosInf = NaN"
| "js_add PosInf b = PosInf"
| "js_add NegInf b = NegInf"
| "js_add a PosInf = PosInf"
| "js_add a NegInf = NegInf"
| "js_add (Fin x) (Fin y) = Fin (x + y)"

definition js_sub :: "jsnum \<Rightarrow> jsnum \<Rightarrow> jsnum" where
  "js_sub a b = js_add a (js_neg b)"

text \<open>The sign of a number that is not \<^verbatim>\<open>NaN\<close>: \<open>1\<close>, \<open>0\<close> or \<open>- 1\<close>.\<close>

fun js_sign :: "jsnum \<Rightarrow> int" where
  "js_sign NaN = 0"
| "js_sign PosInf = 1"
| "js_sign NegInf = - 1"
| "js_sign (Fin x) = (if 0 < x then 1 else if x < 0 then - 1 else 0)"

definition signed_inf :: "int \<Rightarrow> jsnum" where
  "signed_inf s = (if s = 0 then NaN else if 0 < s then PosInf else NegInf)"

fun js_mul :: "jsnum \<Rightarrow> jsnum \<Rightarrow> jsnum" where
  "js_mul NaN b = NaN"
| "js_mul a NaN = NaN"
| "js_mul (Fin x) (Fin y) = Fin (x * y)"
| "js_mul a b = signed_inf (js_sign a * js_sign b)"

text \<open>
  Division: a finite number divided by zero is an infinity of the dividend's sign (zero
  is taken as positive zero), and \<open>0 / 0\<close> is \<^verbatim>\<open>NaN\<close>.
\<close>

fun js_div :: "jsnum \<Rightarrow> jsnum \<Rightarrow> jsnum" where
  "js_div NaN b = NaN"
| "js_div a NaN = NaN"
| "js_div (Fin x) (Fin y) = (if y = 0 then signed_inf (js_sign (Fin x)) else Fin (x / y))"
| "js_div (Fin x) b = Fin 0"
| "js_div a (Fin y) = signed_inf (js_sign a * (if y < 0 then - 1 else 1))"
| "js_div a b = NaN"

fun js_gt :: "jsnum \<Rightarrow> jsnum \<Rightarrow> bool" where
  "js_gt NaN b = False"
| "js_gt a NaN = False"
| "js_gt PosInf b = (b \<noteq> PosInf)"
| "js_gt a PosInf = False"
| "js_gt a NegInf = (a \<noteq> NegInf)"
| "js_gt NegInf b = False"
| "js_gt (Fin x) (Fin y) = (y < x)"


text \<open>\<^verbatim>\<open>a === b\<close> on numbers: \<^verbatim>\<open>NaN\<close> equals nothing.\<close>

definition js_num_eq :: "jsnum \<Rightarrow> jsnum \<Rightarrow> bool" where
  "js_num_eq a b = (a \<noteq> NaN \<and> a = b)"

definition isNaN :: "jsnum \<Rightarrow> bool" where
  "isNaN n = (n = NaN)"

text \<open>\<^verbatim>\<open>n || 0\<close> on a number: zero and \<^verbatim>\<open>NaN\<close> are falsy.\<close>

definition num_truthy :: "jsnum \<Rightarrow> bool" where
  "num_truthy n = (n \<noteq> NaN \<and> n \<noteq> Fin 0)"

definition num_or_zero :: "jsnum \<Rightarrow> jsnum" where
  "num_or_zero n = (if num_truthy n then n else Fin 0)"

subsection \<open>Truthiness, the operator \<^verbatim>\<open>||\<close> and property reads\<close>

fun truthy :: "jsval \<Rightarrow> bool" where
  "truthy Undefined = False"
| "truthy Null = False"
| "truthy (Bool b) = b"
| "truthy (Num n) = num_truthy n"
| "truthy (Str s) = (s \<noteq> [])"
| "truthy (Arr xs) = True"
| "truthy (Obj kvs) = True"
| "truthy (Native n) = True"

definition js_or :: "jsval \<Rightarrow> jsval \<Rightarrow> jsval" where
  "js_or a b = (if truthy a then a else b)"

text \<open>
  \<^verbatim>\<open>row.Key\<close> for the field names the program reads from a raw row, none of which names
  a member of a built-in prototype: a read from \<^verbatim>\<open>null\<close> or \<^verbatim>\<open>undefined\<close> throws, a
  read from an object yields the own property or \<^verbatim>\<open>undefined\<close>, and a read from any
  other value yields \<^verbatim>\<open>undefined\<close>.
\<close>

fun field :: "jsval \<Rightarrow> string \<Rightarrow> error + jsval" where
  "field Undefined k = Inl TypeError"
| "field Null k = Inl TypeError"
| "field (Obj kvs) k = Inr (case map_of kvs k of None \<Rightarrow> Undefined | Some v \<Rightarrow> v)"
| "field v k = Inr Undefined"

text \<open>\<^verbatim>\<open>row.A || row.b\<close>: both reads happen on the same row, so they throw together.\<close>

definition field2 :: "jsval \<Rightarrow> string \<Rightarrow> string \<Rightarrow> error + jsval" where
  "field2 row a b =
     bind_err (field row a) (\<lambda>x. if truthy x then Inr x else field row b)"

fun isArray :: "jsval \<Rightarrow> bool" where
  "isArray (Arr xs) = True"
| "isArray v = False"

subsection \<open>Strings\<close>

text \<open>
  Strings are lists of characters; the character classes are those of the ASCII range
  (white space as \<^verbatim>\<open>trim\<close> and the number parsers skip it, decimal and hexadecimal
  digits, the letters \<^verbatim>\<open>toLowerCase\<close> maps).
\<close>

definition is_space :: "char \<Rightarrow> bool" where
  "is_space c = (c \<in> set [CHR 0x09, CHR 0x0A, CHR 0x0B, CHR 0x0C, CHR 0x0D, CHR 0x20])"

definition hex_digit :: "char \<Rightarrow> nat option" where
  "hex_digit c =
     map_of
       (zip ''0123456789abcdef'' [0, 1, 2, 3, 4, 5, 6, 7, 8, 9, 10, 11, 12, 13, 14, 15] @
        zip ''ABCDEF'' [10, 11, 12, 13, 14, 15]) c"

definition is_digit :: "char \<Rightarrow> bool" where
  "is_digit c = (c \<in> set ''0123456789'')"

definition toLowerCase :: "string \<Rightarrow> string" where
  "toLowerCase s =
     map (\<lambda>c. case map_of (zip ''ABCDEFGHIJKLMNOPQRSTUVWXYZ'' ''abcdefghijklmnopqrstuvwxyz'') c of
                None \<Rightarrow> c | Some l \<Rightarrow> l) s"

text \<open>\<^verbatim>\<open>s.includes(p)\<close>: \<open>p\<close> occurs in \<open>s\<close> as a contiguous run of characters.\<close>

definition str_includes :: "string \<Rightarrow> string \<Rightarrow> bool" where
  "str_includes s p = sublist p s"

definition trimStart :: "string \<Rightarrow> string" where
  "trimStart s = dropWhile is_space s"

definition trim :: "string \<Rightarrow> string" where
  "trim s = rev (dropWhile is_space (rev (dropWhile is_space s)))"

text \<open>The digits of the longest prefix of a string that is a numeral in radix \<open>r\<close>.\<close>

fun radix_prefix :: "nat \<Rightarrow> string \<Rightarrow> nat list" where
  "radix_prefix r [] = []"
| "radix_prefix r (c # cs) =
     (case hex_digit c of
        None \<Rightarrow> []
      | Some d \<Rightarrow> if d < r then d # radix_prefix r cs else [])"

definition digits_value :: "nat \<Rightarrow> nat list \<Rightarrow> nat" where
  "digits_value r ds = foldl (\<lambda>a d. a * r + d) 0 ds"

text \<open>An optional sign in front of a numeral: whether it is a minus, and the rest.\<close>

fun take_sign :: "string \<Rightarrow> bool \<times> string" where
  "take_sign [] = (False, [])"
| "take_sign (c # cs) =
     (if c = CHR ''-'' then (True, cs) else if c = CHR ''+'' then (False, cs) else (False, c # cs))"

subsection \<open>Numbers to strings\<close>

definition digit_char :: "nat \<Rightarrow> char" where
  "digit_char d = ''0123456789'' ! d"

fun nat_digits :: "nat \<Rightarrow> string" where
  "nat_digits n = (if n < 10 then [digit_char n] else nat_digits (n div 10) @ [digit_char (n mod 10)])"

declare nat_digits.simps [simp del]

text \<open>
  The significant digits of \<open>x\<close> in \<open>[0, 1)\<close> after the decimal point, at most \<open>k\<close> of
  them, none after the expansion ends.
\<close>

fun frac_digits :: "nat \<Rightarrow> real \<Rightarrow> nat list" where
  "frac_digits k x =
     (if k = 0 \<or> x = 0 then []
      else nat \<lfloor>x * 10\<rfloor> # frac_digits (k - 1) (x * 10 - of_int \<lfloor>x * 10\<rfloor>))"

declare frac_digits.simps [simp del]

text \<open>For \<open>0 < x < 1\<close>: the number of zeros between the decimal point and the first
  significant digit (the search is cut off below the smallest double).\<close>

fun leading_zeros :: "nat \<Rightarrow> real \<Rightarrow> nat" where
  "leading_zeros k x =
     (if k = 0 \<or> 1 \<le> x * 10 then 0 else Suc (leading_zeros (k - 1) (x * 10)))"

declare leading_zeros.simps [simp del]

definition pow10 :: "int \<Rightarrow> real" where
  "pow10 e = (if 0 \<le> e then 10 ^ nat e else 1 / 10 ^ nat (- e))"

text \<open>
  \<^verbatim>\<open>Number::toString\<close> of a positive finite number, after ECMAScript: with \<open>ds\<close> the
  significant digits (\<open>k\<close> of them, at most 17, as a double has) and \<open>n\<close> the position of
  the decimal point relative to them, the decimal form is used for \<open>- 6 < n \<le> 21\<close> and
  the exponent form otherwise.
\<close>

definition pos_toString :: "real \<Rightarrow> string" where
  "pos_toString x =
     (let n = (if 1 \<le> x then int (length (nat_digits (nat \<lfloor>x\<rfloor>)))
               else - int (leading_zeros 400 x));
          ds = frac_digits 17 (x / pow10 n);
          k = int (length ds);
          cs = map digit_char ds
      in if k \<le> n \<and> n \<le> 21 then cs @ replicate (nat (n - k)) CHR ''0''
         else if 0 < n \<and> n \<le> 21 then take (nat n) cs @ ''.'' @ drop (nat n) cs
         else if - 6 < n \<and> n \<le> 0 then ''0.'' @ replicate (nat (- n)) CHR ''0'' @ cs
         else take 1 cs @ (if k = 1 then [] else ''.'' @ drop 1 cs) @ ''e'' @
              (if 0 \<le> n - 1 then ''+'' else ''-'') @ nat_digits (nat \<bar>n - 1\<bar>))"

fun Number_toString :: "jsnum \<Rightarrow> string" where
  "Number_toString NaN = ''NaN''"
| "Number_toString PosInf = ''Infinity''"
| "Number_toString NegInf = ''-Infinity''"
| "Number_toString (Fin x) =
     (if x = 0 then ''0'' else if x < 0 then ''-'' @ pos_toString (- x) else pos_toString x)"

subsection \<open>Values to strings\<close>

text \<open>
  \<^verbatim>\<open>String(v)\<close>, which is also the conversion \<^verbatim>\<open>parseInt\<close> applies to its argument and
  the conversion of a value used as a property key. An array is the join of its elements
  with commas, \<^verbatim>\<open>null\<close> and \<^verbatim>\<open>undefined\<close> elements as empty strings. A parsed JSON
  object has no callable member of its own, so an object with an own property
  \<^verbatim>\<open>toString\<close> hides \<^verbatim>\<open>Object.prototype.toString\<close> and the conversion throws; any other
  object is \<^verbatim>\<open>[object Object]\<close>. A built-in function is rendered as V8 does.
\<close>

fun ToString :: "jsval \<Rightarrow> error + string"
  and join_elems :: "jsval list \<Rightarrow> error + string" where
  "ToString Undefined = Inr ''undefined''"
| "ToString Null = Inr ''null''"
| "ToString (Bool b) = Inr (if b then ''true'' else ''false'')"
| "ToString (Num n) = Inr (Number_toString n)"
| "ToString (Str s) = Inr s"
| "ToString (Arr xs) = join_elems xs"
| "ToString (Obj kvs) =
     (if ''toString'' \<in> set (map fst kvs) then Inl TypeError else Inr ''[object Object]'')"
| "ToString (Native n) =
     Inr (if n = ''__proto__'' then ''[object Object]''
          else ''function '' @ n @ ''() { [native code] }'')"
| "join_elems [] = Inr []"
| "join_elems (x # xs) =
     (case (if x = Undefined \<or> x = Null then Inr [] else ToString x) of
        Inl e \<Rightarrow> Inl e
      | Inr s \<Rightarrow>
          (if xs = [] then Inr s
           else (case join_elems xs of Inl e \<Rightarrow> Inl e | Inr t \<Rightarrow> Inr (s @ '','' @ t))))"

subsection \<open>\<^verbatim>\<open>parseInt\<close> and \<^verbatim>\<open>parseFloat\<close>\<close>

text \<open>
  \<^verbatim>\<open>parseInt(s)\<close> with no radix: leading white space is skipped, then an optional sign,
  then \<^verbatim>\<open>0x\<close> selects radix 16, and the longest prefix of digits is the value;
  \<^verbatim>\<open>NaN\<close> when there is no digit.
\<close>

definition parseInt_str :: "string \<Rightarrow> jsnum" where
  "parseInt_str s =
     (let (neg, u) = take_sign (trimStart s);
          hex = (prefix ''0x'' u \<or> prefix ''0X'' u);
          r = (if hex then 16 else 10);
          ds = radix_prefix r (if hex then drop 2 u else u)
      in if ds = [] then NaN
         else Fin ((if neg then - 1 else 1) * real (digits_value r ds)))"

definition parseInt :: "jsval \<Rightarrow> error + jsnum" where
  "parseInt v = bind_err (ToString v) (\<lambda>s. Inr (parseInt_str s))"

text \<open>The exponent part \<^verbatim>\<open>e[+-]digits\<close> at the head of a string, or 0 when there is none.\<close>

definition exponent_part :: "string \<Rightarrow> int" where
  "exponent_part s =
     (case s of
        [] \<Rightarrow> 0
      | c # cs \<Rightarrow>
          if c = CHR ''e'' \<or> c = CHR ''E'' then
            (let (neg, u) = take_sign cs; ds = radix_prefix 10 u
             in if neg then - int (digits_value 10 ds) else int (digits_value 10 ds))
          else 0)"

text \<open>
  \<^verbatim>\<open>parseFloat(s)\<close>: leading white space is skipped and the longest prefix that is a
  decimal literal (sign, \<^verbatim>\<open>Infinity\<close> or digits with an optional fraction and exponent)
  is the value; \<^verbatim>\<open>NaN\<close> when there is none.
\<close>

definition parseFloat_str :: "string \<Rightarrow> jsnum" where
  "parseFloat_str s =
     (let (neg, u) = take_sign (trimStart s) in
      if prefix ''Infinity'' u then (if neg then NegInf else PosInf)
      else
        (let ip = radix_prefix 10 u;
             r1 = drop (length ip) u;
             dot = prefix ''.'' r1;
             fp = (if dot then radix_prefix 10 (drop 1 r1) else []);
             r2 = (if dot then drop (1 + length fp) r1 else r1);
             m = real (digits_value 10 ip) + real (digits_value 10 fp) / 10 ^ length fp
         in if ip = [] \<and> fp = [] then NaN
            else Fin ((if neg then - 1 else 1) * m * pow10 (exponent_part r2))))"

definition parseFloat :: "jsval \<Rightarrow> error + jsnum" where
  "parseFloat v = bind_err (ToString v) (\<lambda>s. Inr (parseFloat_str s))"

section \<open>The helpers of the dashboard\<close>

text \<open>
  \<^verbatim>\<open>
  const safeParseFloat = (val) => {
    if (typeof val === 'number') return val;
    if (!val) return 0;
    const cleanStr = String(val).replace(/,/g, '').trim();
    const num = parseFloat(cleanStr);
    return isNaN(num) ? 0 : num;
  };
  \<close>
\<close>

definition remove_commas :: "string \<Rightarrow> string" where
  "remove_commas s = filter (\<lambda>c. c \<noteq> CHR '','') s"

definition safeParseFloat :: "jsval \<Rightarrow> error + jsnum" where
  "safeParseFloat val =
     (case val of
        Num n \<Rightarrow> Inr n
      | _ \<Rightarrow>
          if \<not> truthy val then Inr (Fin 0)
          else
            bind_err (ToString val) (\<lambda>str.
              let cleanStr = trim (remove_commas str);
                  num = parseFloat_str cleanStr
              in Inr (if isNaN num then Fin 0 else num)))"

text \<open>
  \<^verbatim>\<open>
  const getRegionFromCountry = (country) => {
    if (!country) return "International";
    const map = { "Turkey": "MENA", ..., "Japan": "Asia" };
    return map[country] || "International";
  };
  \<close>
  \<^verbatim>\<open>map\<close> is an object literal, so \<^verbatim>\<open>map[country]\<close> converts \<^verbatim>\<open>country\<close> to a
  property key and, for a key the literal does not have, finds the members every object
  inherits from \<^verbatim>\<open>Object.prototype\<close>.
\<close>

definition region_map :: "(string \<times> string) list" where
  "region_map =
     [(''Turkey'', ''MENA''), (''Saudi Arabia'', ''MENA''), (''United Arab Emirates'', ''MENA''),
      (''Libya'', ''MENA''), (''Jordan'', ''MENA''), (''Egypt'', ''MENA''),
      (''Italy'', ''Europe''), (''Germany'', ''Europe''), (''Spain'', ''Europe''),
      (''United Kingdom'', ''Europe''), (''France'', ''Europe''), (''Russia'', ''Europe''),
      (''Ukraine'', ''Europe''),
      (''USA'', ''Americas''), (''Canada'', ''Americas''), (''Brazil'', ''Americas''),
      (''China'', ''Asia''), (''India'', ''Asia''), (''South Korea'', ''Asia''),
      (''Japan'', ''Asia'')]"

definition object_prototype_keys :: "string list" where
  "object_prototype_keys =
     [''constructor'', ''__defineGetter__'', ''__defineSetter__'', ''hasOwnProperty'',
      ''__lookupGetter__'', ''__lookupSetter__'', ''isPrototypeOf'', ''propertyIsEnumerable'',
      ''toString'', ''valueOf'', ''__proto__'', ''toLocaleString'']"

definition inherited_member :: "string \<Rightarrow> jsval" where
  "inherited_member k =
     (if k = ''constructor'' then Native ''Object''
      else if k \<in> set object_prototype_keys then Native k
      else Undefined)"

definition getRegionFromCountry :: "jsval \<Rightarrow> error + jsval" where
  "getRegionFromCountry country =
     (if \<not> truthy country then Inr (Str ''International'')
      else
        bind_err (ToString country) (\<lambda>k.
          Inr (js_or (case map_of region_map k of
                        Some r \<Rightarrow> Str r
                      | None \<Rightarrow> inherited_member k)
                     (Str ''International''))))"

section \<open>Record Normalizer: raw trade rows to trade records\<close>

text \<open>
  \<^verbatim>\<open>
  const tradeData = useMemo(() => {
    if (!tradeDataRawInput || !Array.isArray(tradeDataRawInput)) return [];
    return tradeDataRawInput.map(row => {
      const year = row.Year || row.year_of_trade;
      const flow = row.Flow_Description || row.flow_description || "Unknown";
      const partner = row.Partner_Country || row.partner_country_name || "Unknown";
      const commodity = row.Traded_Commodities || row.commodity_description || "Unknown";
      return {
        Year: parseInt(year) || 0,
        Flow: flow,
        Partner: partner,
        Region: getRegionFromCountry(partner),
        Commodity: commodity,
        Value: safeParseFloat(row.Trade_Value),
        Weight: safeParseFloat(row.WeightofTradedGoods)
      };
    })
    .filter(d => d.Year > 0)
    .filter(d => !d.Commodity.toLowerCase().includes("all commodities"));
  }, []);
  \<close>
  The text fields of a record are whatever truthy value the row carries: the code
  converts none of them.
\<close>

record TradeRecord =
  Year :: jsnum
  Flow :: jsval
  Partner :: jsval
  Region :: jsval
  Commodity :: jsval
  Value :: jsnum
  Weight :: jsnum

text \<open>The callback of \<^verbatim>\<open>map\<close>: one record for one raw row, or an exception.\<close>

definition trade_row :: "jsval \<Rightarrow> error + TradeRecord" where
  "trade_row row =
     bind_err (field2 row ''Year'' ''year_of_trade'') (\<lambda>year.
     bind_err (field2 row ''Flow_Description'' ''flow_description'') (\<lambda>f.
     bind_err (field2 row ''Partner_Country'' ''partner_country_name'') (\<lambda>p.
     bind_err (field2 row ''Traded_Commodities'' ''commodity_description'') (\<lambda>c.
     bind_err (parseInt year) (\<lambda>y.
     bind_err (getRegionFromCountry (js_or p (Str ''Unknown''))) (\<lambda>region.
     bind_err (field row ''Trade_Value'') (\<lambda>tv.
     bind_err (safeParseFloat tv) (\<lambda>v.
     bind_err (field row ''WeightofTradedGoods'') (\<lambda>wt.
     bind_err (safeParseFloat wt) (\<lambda>w.
       Inr \<lparr>Year = num_or_zero y,
            Flow = js_or f (Str ''Unknown''),
            Partner = js_or p (Str ''Unknown''),
            Region = region,
            Commodity = js_or c (Str ''Unknown''),
            Value = v,
            Weight = w\<rparr>))))))))))"

text \<open>
  The predicate of the second \<^verbatim>\<open>filter\<close>. \<^verbatim>\<open>toLowerCase\<close> is a method of strings
  only: on any other value the call throws.
\<close>

definition not_all_commodities :: "TradeRecord \<Rightarrow> error + bool" where
  "not_all_commodities d =
     (case Commodity d of
        Str s \<Rightarrow> Inr (\<not> str_includes (toLowerCase s) ''all commodities'')
      | _ \<Rightarrow> Inl TypeError)"

definition tradeData :: "jsval \<Rightarrow> error + TradeRecord list" where
  "tradeData tradeDataRawInput =
     (if \<not> truthy tradeDataRawInput \<or> \<not> isArray tradeDataRawInput then Inr []
      else
        (case tradeDataRawInput of
           Arr rows \<Rightarrow>
             bind_err (map_err trade_row rows) (\<lambda>ds.
               filter_err not_all_commodities (filter (\<lambda>d. js_gt (Year d) (Fin 0)) ds))
         | _ \<Rightarrow> Inr []))"

section \<open>Objects used as dictionaries, and sorting\<close>

text \<open>
  The aggregations collect their groups in object literals: \<^verbatim>\<open>groups[key]\<close>. An object
  is the list of its own properties in creation order. A key the object does not own is
  still found when \<^verbatim>\<open>Object.prototype\<close> has a member of that name.
\<close>

type_synonym 'v js_object = "(string \<times> 'v) list"

fun obj_put :: "'v js_object \<Rightarrow> string \<Rightarrow> 'v \<Rightarrow> 'v js_object" where
  "obj_put [] k v = [(k, v)]"
| "obj_put ((k', v') # kvs) k v = (if k' = k then (k, v) # kvs else (k', v') # obj_put kvs k v)"

definition inherited :: "string \<Rightarrow> bool" where
  "inherited k = (k \<in> set object_prototype_keys)"

text \<open>
  \<^verbatim>\<open>Object.values(o)\<close>: the properties whose keys are array indices (canonical decimal
  numerals below \<open>2\<^sup>3\<^sup>2 - 1\<close>) come first, by ascending index, then the others in
  creation order.
\<close>

definition array_index :: "string \<Rightarrow> nat option" where
  "array_index k =
     (if k \<noteq> [] \<and> list_all is_digit k \<and> (k = ''0'' \<or> \<not> prefix ''0'' k)
         \<and> digits_value 10 (radix_prefix 10 k) < 4294967295
      then Some (digits_value 10 (radix_prefix 10 k)) else None)"

definition Object_values :: "'v js_object \<Rightarrow> 'v list" where
  "Object_values obj =
     map snd (sort_key fst
        (concat (map (\<lambda>(k, v). case array_index k of None \<Rightarrow> [] | Some i \<Rightarrow> [(i, v)]) obj)))
     @ map snd (filter (\<lambda>(k, v). array_index k = None) obj)"

text \<open>
  \<^verbatim>\<open>xs.sort(cmp)\<close>: the sort is stable, \<open>a\<close> stays in front of \<open>b\<close> unless
  \<^verbatim>\<open>cmp(a, b) > 0\<close>, and a comparator result \<^verbatim>\<open>NaN\<close> counts as 0. For a comparator that
  is not a consistent order the language leaves the result to the implementation; the
  model is then the insertion sort below.
\<close>

fun insort_cmp :: "('a \<Rightarrow> 'a \<Rightarrow> jsnum) \<Rightarrow> 'a \<Rightarrow> 'a list \<Rightarrow> 'a list" where
  "insort_cmp cmp x [] = [x]"
| "insort_cmp cmp x (y # ys) =
     (if js_gt (cmp x y) (Fin 0) then y # insort_cmp cmp x ys else x # y # ys)"

definition js_sort :: "('a \<Rightarrow> 'a \<Rightarrow> jsnum) \<Rightarrow> 'a list \<Rightarrow> 'a list" where
  "js_sort cmp xs = foldr (insort_cmp cmp) xs []"

section \<open>Aggregation Engine (the version that aggregates in the browser)\<close>

text \<open>
  \<^verbatim>\<open>
  const currentYearData = useMemo(() => {
    if (!selectedYear) return [];
    return tradeData.filter(row => row.Year === parseInt(selectedYear));
  }, [selectedYear, tradeData]);
  \<close>
\<close>

definition currentYearData :: "jsval \<Rightarrow> TradeRecord list \<Rightarrow> error + TradeRecord list" where
  "currentYearData selectedYear tradeData' =
     (if \<not> truthy selectedYear then Inr []
      else filter_err
             (\<lambda>row. bind_err (parseInt selectedYear) (\<lambda>y. Inr (js_num_eq (Year row) y)))
             tradeData')"

text \<open>
  \<^verbatim>\<open>row.Flow.includes('Export')\<close>: a substring test on a string, a membership test on an
  array, and a \<^verbatim>\<open>TypeError\<close> on any other value, which has no such method.
\<close>

definition flow_includes :: "jsval \<Rightarrow> string \<Rightarrow> error + bool" where
  "flow_includes v p =
     (case v of
        Str s \<Rightarrow> Inr (str_includes s p)
      | Arr xs \<Rightarrow> Inr (Str p \<in> set xs)
      | _ \<Rightarrow> Inl TypeError)"

text \<open>
  \<^verbatim>\<open>
  let exports = 0, imports = 0;
  currentYearData.forEach(row => {
    if (row.Flow.includes('Export')) exports += row.Value;
    if (row.Flow.includes('Import')) imports += row.Value;
  });
  \<close>
\<close>

definition kpi_step :: "jsnum \<times> jsnum \<Rightarrow> TradeRecord \<Rightarrow> error + jsnum \<times> jsnum" where
  "kpi_step acc row =
     (case acc of (ex, im) \<Rightarrow>
        bind_err (flow_includes (Flow row) ''Export'') (\<lambda>e.
        bind_err (flow_includes (Flow row) ''Import'') (\<lambda>i.
          Inr (if e then js_add ex (Value row) else ex,
               if i then js_add im (Value row) else im))))"

definition kpi_totals :: "TradeRecord list \<Rightarrow> error + jsnum \<times> jsnum" where
  "kpi_totals rows = fold_err kpi_step (Fin 0, Fin 0) rows"

text \<open>
  \<^verbatim>\<open>
  const partnerTotals = {};
  currentYearData.forEach(row => {
    if (!partnerTotals[row.Partner]) partnerTotals[row.Partner] = 0;
    partnerTotals[row.Partner] += row.Value;
  });
  const top3Sum = Object.values(partnerTotals).sort((a,b)=>b-a).slice(0,3).reduce((a,b)=>a+b, 0);
  const totalVol = exports + imports;
  const concentrationRisk = totalVol > 0 ? (top3Sum / totalVol) * 100 : 0;
  \<close>
  A partner whose name is a member of \<^verbatim>\<open>Object.prototype\<close> finds the inherited built-in
  instead of a missing total; \<^verbatim>\<open>+=\<close> then concatenates its source text with the
  number. Such a total is a string that is no numeral (\<open>NotNumeric\<close>): it stays one
  under \<^verbatim>\<open>+\<close> and is \<^verbatim>\<open>NaN\<close> wherever a number is wanted. The key
  \<^verbatim>\<open>__proto__\<close> is the exception: assigning a string to it is ignored, and no total is
  stored.
\<close>

datatype total = Total jsnum | NotNumeric

fun to_number :: "total \<Rightarrow> jsnum" where
  "to_number (Total n) = n"
| "to_number NotNumeric = NaN"

fun total_plus :: "total \<Rightarrow> total \<Rightarrow> total" where
  "total_plus (Total a) (Total b) = Total (js_add a b)"
| "total_plus a b = NotNumeric"

fun total_truthy :: "total \<Rightarrow> bool" where
  "total_truthy (Total n) = num_truthy n"
| "total_truthy NotNumeric = True"

definition partnerTotals_step :: "total js_object \<Rightarrow> TradeRecord \<Rightarrow> error + total js_object" where
  "partnerTotals_step partnerTotals row =
     bind_err (ToString (Partner row)) (\<lambda>k.
       let cur = (case map_of partnerTotals k of
                    Some t \<Rightarrow> if total_truthy t then t else Total (Fin 0)
                  | None \<Rightarrow> if inherited k then NotNumeric else Total (Fin 0))
       in Inr (if k = ''__proto__'' then partnerTotals
               else obj_put partnerTotals k (total_plus cur (Total (Value row)))))"

definition top3Sum :: "total js_object \<Rightarrow> total" where
  "top3Sum partnerTotals =
     foldl total_plus (Total (Fin 0))
       (take 3 (js_sort (\<lambda>a b. js_sub (to_number b) (to_number a)) (Object_values partnerTotals)))"

definition concentrationRisk :: "TradeRecord list \<Rightarrow> error + jsnum" where
  "concentrationRisk rows =
     bind_err (kpi_totals rows) (\<lambda>(ex, im).
     bind_err (fold_err partnerTotals_step [] rows) (\<lambda>partnerTotals.
       let totalVol = js_add ex im in
       Inr (if js_gt totalVol (Fin 0)
            then js_mul (js_div (to_number (top3Sum partnerTotals)) totalVol) (Fin 100)
            else Fin 0)))"

text \<open>
  \<^verbatim>\<open>
  const historyMap = {};
  tradeData.forEach(row => {
    if (!historyMap[row.Year]) historyMap[row.Year] = { year: row.Year, exports: 0, imports: 0 };
    if (row.Flow.includes('Export')) historyMap[row.Year].exports += row.Value;
    if (row.Flow.includes('Import')) historyMap[row.Year].imports += row.Value;
  });
  const history = Object.values(historyMap).sort((a,b) => a.year - b.year);
  \<close>
  A point of the yearly series; the forecast marks its projections with
  \<^verbatim>\<open>isForecast: true\<close>, and a historical point carries no such property. (The field
  \<^verbatim>\<open>imports\<close> is written \<open>imports'\<close>: the plain word is reserved.)
\<close>

record point =
  year :: jsnum
  exports :: jsnum
  imports' :: jsnum
  isForecast :: bool

definition history_step :: "point js_object \<Rightarrow> TradeRecord \<Rightarrow> error + point js_object" where
  "history_step historyMap row =
     (let k = Number_toString (Year row);
          cur = (case map_of historyMap k of
                   Some pt \<Rightarrow> pt
                 | None \<Rightarrow> \<lparr>year = Year row, exports = Fin 0, imports' = Fin 0, isForecast = False\<rparr>)
      in bind_err (flow_includes (Flow row) ''Export'') (\<lambda>e.
         bind_err (flow_includes (Flow row) ''Import'') (\<lambda>i.
           Inr (obj_put historyMap k
                  (cur\<lparr>exports := (if e then js_add (exports cur) (Value row) else exports cur),
                        imports' := (if i then js_add (imports' cur) (Value row) else imports' cur)\<rparr>)))))"

definition history_of :: "TradeRecord list \<Rightarrow> error + point list" where
  "history_of tradeData' =
     bind_err (fold_err history_step [] tradeData') (\<lambda>historyMap.
       Inr (js_sort (\<lambda>a b. js_sub (year a) (year b)) (Object_values historyMap)))"

text \<open>
  \<^verbatim>\<open>
  waterfall: [
    { name: 'Exports', value: exports, fill: COLORS.export },
    { name: 'Imports', value: -imports, fill: COLORS.import },
    { name: 'Net', value: exports - imports,
      fill: (exports - imports) > 0 ? COLORS.export : COLORS.import }
  ],
  history, exports, imports, net: exports - imports, concentrationRisk
  \<close>
  The page shows the same net balance in a card of its own, coloured by
  \<^verbatim>\<open>overviewStats.net >= 0 ? 'text-emerald-600' : 'text-red-500'\<close>.
\<close>

definition COLORS_export :: string where
  "COLORS_export = ''#10b981''"

definition COLORS_import :: string where
  "COLORS_import = ''#ef4444''"

record bar =
  name :: string
  value' :: jsnum
  fill :: string

definition waterfall :: "jsnum \<Rightarrow> jsnum \<Rightarrow> bar list" where
  "waterfall ex im =
     [\<lparr>name = ''Exports'', value' = ex, fill = COLORS_export\<rparr>,
      \<lparr>name = ''Imports'', value' = js_neg im, fill = COLORS_import\<rparr>,
      \<lparr>name = ''Net'', value' = js_sub ex im,
       fill = (if js_gt (js_sub ex im) (Fin 0) then COLORS_export else COLORS_import)\<rparr>]"

text \<open>The class of the net-balance card: \<^verbatim>\<open>net >= 0\<close> is green, as exports are.\<close>

definition js_ge :: "jsnum \<Rightarrow> jsnum \<Rightarrow> bool" where
  "js_ge a b = (js_gt a b \<or> js_num_eq a b)"

definition net_card_class :: "jsnum \<Rightarrow> string" where
  "net_card_class net' = (if js_ge net' (Fin 0) then ''text-emerald-600'' else ''text-red-500'')"

record overview =
  ov_waterfall :: "bar list"
  ov_history :: "point list"
  ov_exports :: jsnum
  ov_imports :: jsnum
  ov_net :: jsnum
  ov_concentrationRisk :: jsnum

definition overviewStats :: "TradeRecord list \<Rightarrow> TradeRecord list \<Rightarrow> error + overview" where
  "overviewStats currentYearData' tradeData' =
     bind_err (kpi_totals currentYearData') (\<lambda>(ex, im).
     bind_err (concentrationRisk currentYearData') (\<lambda>risk.
     bind_err (history_of tradeData') (\<lambda>history.
       Inr \<lparr>ov_waterfall = waterfall ex im, ov_history = history, ov_exports = ex,
            ov_imports = im, ov_net = js_sub ex im, ov_concentrationRisk = risk\<rparr>)))"

text \<open>
  \<^verbatim>\<open>
  const commodityStats = useMemo(() => {
    const groups = {};
    currentYearData.forEach(row => {
      const rawName = row.Commodity;
      const name = rawName.split(';')[0].replace(/^\d+\s*-\s*/, '');
      if (!groups[name]) groups[name] = { name, value: 0, weight: 0 };
      groups[name].value += row.Value;
      groups[name].weight += row.Weight || 0;
    });
    const sorted = Object.values(groups).sort((a, b) => b.value - a.value);
    return { top10: sorted.slice(0, 10),
             all: sorted.slice(0, 30).map(item => ({ ...item, size: item.value })) };
  }, [currentYearData]);
  \<close>
  The cleaning of the commodity text: the part before the first semicolon, without a
  leading run of digits, white space, a hyphen and white space.
\<close>

definition strip_code :: "string \<Rightarrow> string" where
  "strip_code s =
     (let ds = takeWhile is_digit s;
          r = dropWhile is_space (drop (length ds) s)
      in if ds \<noteq> [] \<and> prefix ''-'' r then dropWhile is_space (drop 1 r) else s)"

definition clean_name :: "string \<Rightarrow> string" where
  "clean_name rawName = strip_code (takeWhile (\<lambda>c. c \<noteq> CHR '';'') rawName)"

record commodity_group =
  g_name :: string
  g_value :: jsnum
  g_weight :: jsnum

text \<open>
  A name that \<^verbatim>\<open>Object.prototype\<close> has as a member finds the inherited built-in: no
  group is created, the two \<^verbatim>\<open>+=\<close> write properties of the built-in, and
  \<^verbatim>\<open>groups\<close> stays as it is.
\<close>

definition commodity_step ::
    "commodity_group js_object \<Rightarrow> TradeRecord \<Rightarrow> error + commodity_group js_object" where
  "commodity_step groups row =
     (case Commodity row of
        Str rawName \<Rightarrow>
          (let name' = clean_name rawName in
           case map_of groups name' of
             None \<Rightarrow>
               if inherited name' then Inr groups
               else Inr (obj_put groups name'
                      \<lparr>g_name = name', g_value = js_add (Fin 0) (Value row),
                       g_weight = js_add (Fin 0) (num_or_zero (Weight row))\<rparr>)
           | Some g \<Rightarrow>
               Inr (obj_put groups name'
                      (g\<lparr>g_value := js_add (g_value g) (Value row),
                         g_weight := js_add (g_weight g) (num_or_zero (Weight row))\<rparr>)))
      | _ \<Rightarrow> Inl TypeError)"

definition commodity_sorted :: "TradeRecord list \<Rightarrow> error + commodity_group list" where
  "commodity_sorted rows =
     bind_err (fold_err commodity_step [] rows) (\<lambda>groups.
       Inr (js_sort (\<lambda>a b. js_sub (g_value b) (g_value a)) (Object_values groups)))"

definition commodityStats ::
    "TradeRecord list \<Rightarrow> error + commodity_group list \<times> commodity_group list" where
  "commodityStats rows =
     bind_err (commodity_sorted rows) (\<lambda>sorted'. Inr (take 10 sorted', take 30 sorted'))"

text \<open>
  \<^verbatim>\<open>
  const geoStats = useMemo(() => {
    const partners = {};
    const regions = {};
    currentYearData.forEach(row => {
      if (!partners[row.Partner]) partners[row.Partner] = { name: row.Partner, exports: 0, imports: 0 };
      if (!regions[row.Region]) regions[row.Region] = { name: row.Region, exports: 0, imports: 0 };
      if (row.Flow.includes('Export')) { partners[row.Partner].exports += row.Value; regions[row.Region].exports += row.Value; }
      if (row.Flow.includes('Import')) { partners[row.Partner].imports += row.Value; regions[row.Region].imports += row.Value; }
    });
    return {
      partners: Object.values(partners).sort((a,b) => (b.exports+b.imports) - (a.exports+a.imports)).slice(0, 10),
      regions: Object.values(regions).sort((a,b) => (b.exports+b.imports) - (a.exports+a.imports))
    };
  }, [currentYearData]);
  \<close>
\<close>

record rollup =
  r_name :: jsval
  r_exports :: jsnum
  r_imports :: jsnum

text \<open>One group of a rollup takes one row: created on first sight, then added to by flow.\<close>

definition rollup_add ::
    "rollup js_object \<Rightarrow> string \<Rightarrow> jsval \<Rightarrow> bool \<Rightarrow> bool \<Rightarrow> jsnum \<Rightarrow> rollup js_object" where
  "rollup_add groups k nm e i v =
     (case map_of groups k of
        None \<Rightarrow>
          if inherited k then groups
          else obj_put groups k
                 \<lparr>r_name = nm,
                  r_exports = (if e then js_add (Fin 0) v else Fin 0),
                  r_imports = (if i then js_add (Fin 0) v else Fin 0)\<rparr>
      | Some g \<Rightarrow>
          obj_put groups k
            (g\<lparr>r_exports := (if e then js_add (r_exports g) v else r_exports g),
               r_imports := (if i then js_add (r_imports g) v else r_imports g)\<rparr>))"

definition geo_step ::
    "rollup js_object \<times> rollup js_object \<Rightarrow> TradeRecord \<Rightarrow>
     error + rollup js_object \<times> rollup js_object" where
  "geo_step acc row =
     (case acc of (partners, regions) \<Rightarrow>
        bind_err (ToString (Partner row)) (\<lambda>pk.
        bind_err (ToString (Region row)) (\<lambda>rk.
        bind_err (flow_includes (Flow row) ''Export'') (\<lambda>e.
        bind_err (flow_includes (Flow row) ''Import'') (\<lambda>i.
          Inr (rollup_add partners pk (Partner row) e i (Value row),
               rollup_add regions rk (Region row) e i (Value row)))))))"

definition by_volume_desc :: "rollup \<Rightarrow> rollup \<Rightarrow> jsnum" where
  "by_volume_desc a b =
     js_sub (js_add (r_exports b) (r_imports b)) (js_add (r_exports a) (r_imports a))"

definition geoStats :: "TradeRecord list \<Rightarrow> error + rollup list \<times> rollup list" where
  "geoStats rows =
     bind_err (fold_err geo_step ([], []) rows) (\<lambda>(partners, regions).
       Inr (take 10 (js_sort by_volume_desc (Object_values partners)),
            js_sort by_volume_desc (Object_values regions)))"

section \<open>Linear Forecaster\<close>

text \<open>
  \<^verbatim>\<open>
  const calculateLinearRegression = (data, key) => {
    const n = data.length;
    if (n < 2) return { slope: 0, intercept: data.length > 0 ? data[0][key] : 0 };
    let sumX = 0, sumY = 0, sumXY = 0, sumXX = 0;
    data.forEach(point => {
      sumX += point.year;
      sumY += point[key];
      sumXY += point.year * point[key];
      sumXX += point.year * point.year;
    });
    const slope = (n * sumXY - sumX * sumY) / (n * sumXX - sumX * sumX);
    const intercept = (sumY - slope * sumX) / n;
    return { slope, intercept };
  };
  \<close>
  The key is one of \<^verbatim>\<open>'exports'\<close> and \<^verbatim>\<open>'imports'\<close>; it is passed here as the field it
  selects.
\<close>

record regression =
  slope :: jsnum
  intercept :: jsnum

definition sums_step ::
    "(point \<Rightarrow> jsnum) \<Rightarrow> jsnum \<times> jsnum \<times> jsnum \<times> jsnum \<Rightarrow> point \<Rightarrow> jsnum \<times> jsnum \<times> jsnum \<times> jsnum" where
  "sums_step key acc pt =
     (case acc of (sumX, sumY, sumXY, sumXX) \<Rightarrow>
        (js_add sumX (year pt),
         js_add sumY (key pt),
         js_add sumXY (js_mul (year pt) (key pt)),
         js_add sumXX (js_mul (year pt) (year pt))))"

definition calculateLinearRegression :: "point list \<Rightarrow> (point \<Rightarrow> jsnum) \<Rightarrow> regression" where
  "calculateLinearRegression data key =
     (let n = length data in
      if n < 2 then
        \<lparr>slope = Fin 0, intercept = (if length data > 0 then key (data ! 0) else Fin 0)\<rparr>
      else
        (case foldl (sums_step key) (Fin 0, Fin 0, Fin 0, Fin 0) data of
           (sumX, sumY, sumXY, sumXX) \<Rightarrow>
             let slope' = js_div (js_sub (js_mul (Fin (real n)) sumXY) (js_mul sumX sumY))
                                 (js_sub (js_mul (Fin (real n)) sumXX) (js_mul sumX sumX));
                 intercept' = js_div (js_sub sumY (js_mul slope' sumX)) (Fin (real n))
             in \<lparr>slope = slope', intercept = intercept'\<rparr>))"

text \<open>
  \<^verbatim>\<open>
  const forecastData = useMemo(() => {
    const history = overviewStats.history;
    if (history.length === 0) return [];
    const expReg = calculateLinearRegression(history, 'exports');
    const impReg = calculateLinearRegression(history, 'imports');
    const lastYear = history[history.length - 1].year;
    const futureYears = [lastYear + 1, lastYear + 2];
    const projections = futureYears.map(year => ({
      year,
      exports: expReg.slope * year + expReg.intercept,
      imports: impReg.slope * year + impReg.intercept,
      isForecast: true
    }));
    return [...history, ...projections];
  }, [overviewStats.history]);
  \<close>
\<close>

definition projection :: "regression \<Rightarrow> regression \<Rightarrow> jsnum \<Rightarrow> point" where
  "projection expReg impReg y =
     \<lparr>year = y,
      exports = js_add (js_mul (slope expReg) y) (intercept expReg),
      imports' = js_add (js_mul (slope impReg) y) (intercept impReg),
      isForecast = True\<rparr>"

definition projections :: "point list \<Rightarrow> point list" where
  "projections history =
     (let expReg = calculateLinearRegression history exports;
          impReg = calculateLinearRegression history imports';
          lastYear = year (last history);
          futureYears = [js_add lastYear (Fin 1), js_add lastYear (Fin 2)]
      in map (projection expReg impReg) futureYears)"

definition forecastData :: "point list \<Rightarrow> point list" where
  "forecastData history = (if length history = 0 then [] else history @ projections history)"

section \<open>Indicator records\<close>

text \<open>
  \<^verbatim>\<open>
  const wbData = useMemo(() => {
    if (!wbDataRawInput || !Array.isArray(wbDataRawInput)) return [];
    const years = {};
    wbDataRawInput.forEach(row => {
      const y = parseInt(row.Year || row.year_of_trade);
      if (!y) return;
      if (!years[y]) years[y] = { Year: y, GDP: 0, Inflation: 0 };
      const code = row.Indicator_Code || row.indicator_code;
      const value = safeParseFloat(row.Indicator_Value);
      if (code === "NY.GDP.MKTP.KD.ZG" || code === "WB_WDI_NY_GDP_MKTP_KD_ZG") {
        years[y].GDP = value;
      }
      if (code === "FP.CPI.TOTL.ZG" || code === "WB_WDI_FP_CPI_TOTL_ZG") {
        years[y].Inflation = value;
      }
    });
    return Object.values(years).sort((a,b) => a.Year - b.Year);
  }, []);
  \<close>
\<close>

record indicator =
  i_Year :: jsnum
  GDP :: jsnum
  Inflation :: jsnum

definition year_entry :: "indicator js_object \<Rightarrow> jsnum \<Rightarrow> indicator" where
  "year_entry years y =
     (case map_of years (Number_toString y) of
        Some r \<Rightarrow> r
      | None \<Rightarrow> \<lparr>i_Year = y, GDP = Fin 0, Inflation = Fin 0\<rparr>)"

definition wb_step :: "indicator js_object \<Rightarrow> jsval \<Rightarrow> error + indicator js_object" where
  "wb_step years row =
     bind_err (field2 row ''Year'' ''year_of_trade'') (\<lambda>yv.
     bind_err (parseInt yv) (\<lambda>y.
       if \<not> num_truthy y then Inr years
       else
         bind_err (field2 row ''Indicator_Code'' ''indicator_code'') (\<lambda>code.
         bind_err (field row ''Indicator_Value'') (\<lambda>iv.
         bind_err (safeParseFloat iv) (\<lambda>v.
           let r = year_entry years y;
               r1 = (if code = Str ''NY.GDP.MKTP.KD.ZG'' \<or> code = Str ''WB_WDI_NY_GDP_MKTP_KD_ZG''
                     then r\<lparr>GDP := v\<rparr> else r);
               r2 = (if code = Str ''FP.CPI.TOTL.ZG'' \<or> code = Str ''WB_WDI_FP_CPI_TOTL_ZG''
                     then r1\<lparr>Inflation := v\<rparr> else r1)
           in Inr (obj_put years (Number_toString y) r2))))))"

definition by_year :: "indicator \<Rightarrow> indicator \<Rightarrow> jsnum" where
  "by_year a b = js_sub (i_Year a) (i_Year b)"

definition wbData :: "jsval \<Rightarrow> error + indicator list" where
  "wbData wbDataRawInput =
     (if \<not> truthy wbDataRawInput \<or> \<not> isArray wbDataRawInput then Inr []
      else
        (case wbDataRawInput of
           Arr rows \<Rightarrow>
             bind_err (fold_err wb_step [] rows) (\<lambda>years.
               Inr (js_sort by_year (Object_values years)))
         | _ \<Rightarrow> Inr []))"

section \<open>The version that reads a precomputed payload\<close>

text \<open>
  The second \<^verbatim>\<open>App.jsx\<close> fetches the yearly KPIs, the partner rollup and the trend series
  already computed, and merges the indicator rows itself.
  \<^verbatim>\<open>
  const formattedWB = useMemo(() => {
    if (!wbData.length) return [];
    const years = {};
    wbData.forEach(row => {
      const y = parseInt(row.Year || row.year_of_trade);
      if (!y) return;
      if (!years[y]) years[y] = { Year: y, GDP: 0, Inflation: 0 };
      const code = row.Indicator_Code || row.indicator_code;
      const val = parseFloat(row.Indicator_Value || row.indicator_value);
      if (code && (code.includes("GDP") || code.includes("NY.GDP"))) years[y].GDP = val;
      if (code && (code.includes("CPI") || code.includes("FP.CPI"))) years[y].Inflation = val;
    });
    return Object.values(years).sort((a,b) => a.Year - b.Year);
  }, [wbData]);
  \<close>
\<close>

definition code_includes :: "jsval \<Rightarrow> string \<Rightarrow> string \<Rightarrow> error + bool" where
  "code_includes code a b =
     (if \<not> truthy code then Inr False
      else bind_err (flow_includes code a) (\<lambda>x. if x then Inr True else flow_includes code b))"

definition formatted_step :: "indicator js_object \<Rightarrow> jsval \<Rightarrow> error + indicator js_object" where
  "formatted_step years row =
     bind_err (field2 row ''Year'' ''year_of_trade'') (\<lambda>yv.
     bind_err (parseInt yv) (\<lambda>y.
       if \<not> num_truthy y then Inr years
       else
         bind_err (field2 row ''Indicator_Code'' ''indicator_code'') (\<lambda>code.
         bind_err (field2 row ''Indicator_Value'' ''indicator_value'') (\<lambda>iv.
         bind_err (parseFloat iv) (\<lambda>v.
         bind_err (code_includes code ''GDP'' ''NY.GDP'') (\<lambda>g.
         bind_err (code_includes code ''CPI'' ''FP.CPI'') (\<lambda>c.
           let r = year_entry years y;
               r1 = (if g then r\<lparr>GDP := v\<rparr> else r);
               r2 = (if c then r1\<lparr>Inflation := v\<rparr> else r1)
           in Inr (obj_put years (Number_toString y) r2))))))))"

text \<open>
  \<^verbatim>\<open>wbData.length\<close> is read from whatever the fetch returned: it throws on \<^verbatim>\<open>null\<close>,
  is the length of an array or a string, and is \<^verbatim>\<open>undefined\<close> on anything else; a
  non-empty string has no \<^verbatim>\<open>forEach\<close>.
\<close>

definition formattedWB :: "jsval \<Rightarrow> error + indicator list" where
  "formattedWB wbData' =
     (case wbData' of
        Undefined \<Rightarrow> Inl TypeError
      | Null \<Rightarrow> Inl TypeError
      | Arr rows \<Rightarrow>
          if length rows = 0 then Inr []
          else bind_err (fold_err formatted_step [] rows) (\<lambda>years.
                 Inr (js_sort by_year (Object_values years)))
      | Str s \<Rightarrow> if length s = 0 then Inr [] else Inl TypeError
      | _ \<Rightarrow> Inr [])"

text \<open>
  \<^verbatim>\<open>
  const { kpi, partners } = currentYearStats;
  const waterfall = [
    { name: 'Exports', value: kpi.exports, fill: COLORS.export },
    { name: 'Imports', value: -kpi.imports, fill: COLORS.import },
    { name: 'Net', value: kpi.net, fill: kpi.net > 0 ? COLORS.export : COLORS.import }
  ];
  const sortedPartners = [...partners].sort((a,b) => (b.exports+b.imports) - (a.exports+a.imports));
  const top3Sum = sortedPartners.slice(0, 3).reduce((sum, p) => sum + p.exports + p.imports, 0);
  const totalVol = kpi.exports + kpi.imports;
  const concentrationRisk = totalVol > 0 ? (top3Sum / totalVol) * 100 : 0;
  \<close>
  The KPIs and the partner rollup are taken as records of numbers.
\<close>

record kpi =
  kpi_exports :: jsnum
  kpi_imports :: jsnum
  kpi_net :: jsnum

definition waterfall_kpi :: "kpi \<Rightarrow> bar list" where
  "waterfall_kpi k =
     [\<lparr>name = ''Exports'', value' = kpi_exports k, fill = COLORS_export\<rparr>,
      \<lparr>name = ''Imports'', value' = js_neg (kpi_imports k), fill = COLORS_import\<rparr>,
      \<lparr>name = ''Net'', value' = kpi_net k,
       fill = (if js_gt (kpi_net k) (Fin 0) then COLORS_export else COLORS_import)\<rparr>]"

definition concentrationRisk_kpi :: "kpi \<Rightarrow> rollup list \<Rightarrow> jsnum" where
  "concentrationRisk_kpi k partners =
     (let sortedPartners = js_sort by_volume_desc partners;
          top3 = foldl (\<lambda>sum' p. js_add (js_add sum' (r_exports p)) (r_imports p)) (Fin 0)
                   (take 3 sortedPartners);
          totalVol = js_add (kpi_exports k) (kpi_imports k)
      in if js_gt totalVol (Fin 0) then js_mul (js_div top3 totalVol) (Fin 100) else Fin 0)"

text \<open>
  \<^verbatim>\<open>
  const forecastData = useMemo(() => {
    if (!dashboardData || !dashboardData.trends) return [];
    const history = dashboardData.trends;
    ... (as above, without the test for an empty history)
    const lastYear = history[history.length - 1].year;
  \<close>
  With an empty trend series \<^verbatim>\<open>history[-1]\<close> is \<^verbatim>\<open>undefined\<close> and reading its
  \<^verbatim>\<open>year\<close> throws.
\<close>

definition forecastData_trends :: "point list option \<Rightarrow> error + point list" where
  "forecastData_trends trends =
     (case trends of
        None \<Rightarrow> Inr []
      | Some history \<Rightarrow>
          if history = [] then Inl TypeError else Inr (history @ projections history))"

section \<open>Predicates and sample inputs of the statements\<close>

text \<open>
  A primitive value: \<^verbatim>\<open>undefined\<close>, \<^verbatim>\<open>null\<close>, a boolean, a number or a string. Its
  conversion to a string never throws.
\<close>

fun primitive :: "jsval \<Rightarrow> bool" where
  "primitive (Arr xs) = False"
| "primitive (Obj kvs) = False"
| "primitive (Native n) = False"
| "primitive v = True"

fun is_string :: "jsval \<Rightarrow> bool" where
  "is_string (Str s) = True"
| "is_string v = False"

text \<open>
  A raw row the normalizer can take: not \<^verbatim>\<open>null\<close> or \<^verbatim>\<open>undefined\<close>, with primitive
  year, partner, value and weight fields, and a commodity that is a string unless it is
  falsy (and so replaced by \<^verbatim>\<open>"Unknown"\<close>).
\<close>

definition well_formed_row :: "jsval \<Rightarrow> bool" where
  "well_formed_row row =
     (case (field2 row ''Year'' ''year_of_trade'',
            field2 row ''Partner_Country'' ''partner_country_name'',
            field2 row ''Traded_Commodities'' ''commodity_description'',
            field row ''Trade_Value'',
            field row ''WeightofTradedGoods'') of
        (Inr y, Inr p, Inr c, Inr tv, Inr w) \<Rightarrow>
          primitive y \<and> primitive p \<and> (\<not> truthy c \<or> is_string c) \<and> primitive tv \<and> primitive w
      | _ \<Rightarrow> False)"

text \<open>The records the two filters of the normalizer let through.\<close>

definition kept :: "TradeRecord \<Rightarrow> bool" where
  "kept d = (js_gt (Year d) (Fin 0) \<and> not_all_commodities d = Inr True)"

definition ex_row_oil :: jsval where
  "ex_row_oil =
     Obj [(''Year'', Num (Fin 2020)), (''Flow_Description'', Str ''Export''),
          (''Partner_Country'', Str ''Italy''), (''Traded_Commodities'', Str ''12 - Oil''),
          (''Trade_Value'', Str ''1,000,000'')]"

definition ex_row_total :: jsval where
  "ex_row_total =
     Obj [(''Year'', Num (Fin 2020)), (''Flow_Description'', Str ''Export''),
          (''Partner_Country'', Str ''World''), (''Traded_Commodities'', Str ''ALL Commodities''),
          (''Trade_Value'', Num (Fin 7))]"

definition ex_row_no_year :: jsval where
  "ex_row_no_year =
     Obj [(''Year'', Str ''n/a''), (''Flow_Description'', Str ''Import''),
          (''Partner_Country'', Str ''China''), (''Traded_Commodities'', Num (Fin 27)),
          (''Trade_Value'', Num (Fin 5))]"

definition ex_row_code :: jsval where
  "ex_row_code =
     Obj [(''Year'', Num (Fin 2020)), (''Flow_Description'', Str ''Import''),
          (''Partner_Country'', Str ''China''), (''Traded_Commodities'', Num (Fin 27)),
          (''Trade_Value'', Num (Fin 5))]"

definition ex_rec_oil :: TradeRecord where
  "ex_rec_oil =
     \<lparr>Year = Fin 2020, Flow = Str ''Export'', Partner = Str ''Italy'', Region = Str ''Europe'',
      Commodity = Str ''12 - Oil'', Value = Fin 1000000, Weight = Fin 0\<rparr>"

definition ex_point_2020 :: point where
  "ex_point_2020 = \<lparr>year = Fin 2020, exports = Fin 10, imports' = Fin 5, isForecast = False\<rparr>"

definition ex_point_2021 :: point where
  "ex_point_2021 = \<lparr>year = Fin 2021, exports = Fin 20, imports' = Fin 4, isForecast = False\<rparr>"

definition ex_rec_export :: TradeRecord where
  "ex_rec_export =
     \<lparr>Year = Fin 2020, Flow = Str ''Export'', Partner = Str ''Italy'', Region = Str ''Europe'',
      Commodity = Str ''Oil'', Value = Fin 100, Weight = Fin 0\<rparr>"

definition ex_rec_unknown :: TradeRecord where
  "ex_rec_unknown =
     \<lparr>Year = Fin 2020, Flow = Str ''Unknown'', Partner = Str ''China'', Region = Str ''Asia'',
      Commodity = Str ''Electronics'', Value = Fin 300, Weight = Fin 0\<rparr>"

definition ex_row_export :: jsval where
  "ex_row_export =
     Obj [(''Year'', Num (Fin 2020)), (''Flow_Description'', Str ''Export''),
          (''Partner_Country'', Str ''Italy''), (''Traded_Commodities'', Str ''Oil''),
          (''Trade_Value'', Num (Fin 100))]"

definition ex_row_no_flow :: jsval where
  "ex_row_no_flow =
     Obj [(''Year'', Num (Fin 2020)), (''Partner_Country'', Str ''China''),
          (''Traded_Commodities'', Str ''Electronics''), (''Trade_Value'', Num (Fin 300))]"

text \<open>
  The flow tests of the aggregations, and what one row does to a pair of buckets
  (exports first, imports second): each bucket is added to when the flow of the row
  contains its word.
\<close>

definition flow_has :: "string \<Rightarrow> TradeRecord \<Rightarrow> bool" where
  "flow_has p row = (flow_includes (Flow row) p = Inr True)"

definition js_sum :: "jsnum list \<Rightarrow> jsnum" where
  "js_sum xs = foldl js_add (Fin 0) xs"

definition adds_by_flow :: "TradeRecord \<Rightarrow> jsnum \<times> jsnum \<Rightarrow> jsnum \<times> jsnum \<Rightarrow> bool" where
  "adds_by_flow row before after =
     (fst after = (if flow_has ''Export'' row then js_add (fst before) (Value row) else fst before)
      \<and> snd after = (if flow_has ''Import'' row then js_add (snd before) (Value row) else snd before))"

text \<open>The entry of a row's group before or after a step: the stored one, or the fresh one.\<close>

definition point_at :: "point js_object \<Rightarrow> TradeRecord \<Rightarrow> point" where
  "point_at historyMap row =
     (case map_of historyMap (Number_toString (Year row)) of
        Some pt \<Rightarrow> pt
      | None \<Rightarrow> \<lparr>year = Year row, exports = Fin 0, imports' = Fin 0, isForecast = False\<rparr>)"

definition rollup_at :: "rollup js_object \<Rightarrow> string \<Rightarrow> jsnum \<times> jsnum" where
  "rollup_at groups k =
     (case map_of groups k of Some g \<Rightarrow> (r_exports g, r_imports g) | None \<Rightarrow> (Fin 0, Fin 0))"

definition ex_rec_both :: TradeRecord where
  "ex_rec_both =
     \<lparr>Year = Fin 2020, Flow = Str ''Re-Export of Imports'', Partner = Str ''Italy'',
      Region = Str ''Europe'', Commodity = Str ''Oil'', Value = Fin 5, Weight = Fin 0\<rparr>"

text \<open>Every group of the commodity rollup is named by the cleaned text of a row in \<open>R\<close>.\<close>

definition named_from :: "TradeRecord set \<Rightarrow> commodity_group js_object \<Rightarrow> bool" where
  "named_from R groups =
     (\<forall>k g. (k, g) \<in> set groups \<longrightarrow>
        (\<exists>r s. r \<in> R \<and> Commodity r = Str s \<and> g_name g = clean_name s))"

definition ex_wb_gdp :: jsval where
  "ex_wb_gdp =
     Obj [(''Year'', Num (Fin 2021)), (''Indicator_Code'', Str ''NY.GDP.MKTP.KD.ZG''),
          (''Indicator_Value'', Str ''4.5'')]"

definition ex_wb_cpi :: jsval where
  "ex_wb_cpi =
     Obj [(''Year'', Num (Fin 2021)), (''Indicator_Code'', Str ''FP.CPI.TOTL.ZG''),
          (''Indicator_Value'', Str ''6.2'')]"

definition ex_wb_per_capita :: jsval where
  "ex_wb_per_capita =
     Obj [(''Year'', Num (Fin 2021)), (''Indicator_Code'', Str ''NY.GDP.PCAP.CD''),
          (''Indicator_Value'', Str ''3500'')]"

text \<open>A total that is a finite non-negative number, and its value.\<close>

fun nonneg_total :: "total \<Rightarrow> bool" where
  "nonneg_total (Total (Fin x)) = (0 \<le> x)"
| "nonneg_total t = False"

fun total_value :: "total \<Rightarrow> real" where
  "total_value (Total (Fin x)) = x"
| "total_value t = 0"

text \<open>
  A record of the kind the trade data holds: a finite non-negative value, a string
  partner that names no member of \<^verbatim>\<open>Object.prototype\<close>, and a string flow.
\<close>

definition plain_record :: "TradeRecord \<Rightarrow> bool" where
  "plain_record row =
     ((case Value row of Fin v \<Rightarrow> 0 \<le> v | _ \<Rightarrow> False)
      \<and> (case Partner row of Str p \<Rightarrow> \<not> inherited p | _ \<Rightarrow> False)
      \<and> is_string (Flow row))"

definition value_of :: "TradeRecord \<Rightarrow> real" where
  "value_of row = (case Value row of Fin v \<Rightarrow> v | _ \<Rightarrow> 0)"

section \<open>Properties\<close>

subsection \<open>The error monad and the list combinators\<close>

lemma bind_err_Inl [simp]: "bind_err (Inl e) f = Inl e"
  by (simp add: bind_err_def)

lemma bind_err_Inr [simp]: "bind_err (Inr x) f = f x"
  by (simp add: bind_err_def)

lemma bind_err_eq_Inr: "bind_err m f = Inr y \<longleftrightarrow> (\<exists>x. m = Inr x \<and> f x = Inr y)"
  by (cases m) simp_all

lemma map_err_eq_Inr: "map_err f xs = Inr ys \<longleftrightarrow> list_all2 (\<lambda>x y. f x = Inr y) xs ys"
proof (induction xs arbitrary: ys)
  case Nil
  show ?case by auto
next
  case (Cons x xs)
  show ?case
  proof (cases "f x")
    case (Inl e)
    then show ?thesis by (simp add: list_all2_Cons1)
  next
    case fx: (Inr y)
    show ?thesis
    proof (cases "map_err f xs")
      case (Inl e)
      with fx Cons.IH show ?thesis by (simp add: list_all2_Cons1)
    next
      case (Inr zs)
      with fx Cons.IH show ?thesis by (auto simp: list_all2_Cons1)
    qed
  qed
qed

lemma map_err_total:
  "list_all (\<lambda>x. \<exists>y. f x = Inr y) xs \<Longrightarrow> \<exists>ys. map_err f xs = Inr ys"
  by (induction xs) auto

lemma list_all2_in_set:
  "list_all2 P xs ys \<Longrightarrow> y \<in> set ys \<Longrightarrow> \<exists>x \<in> set xs. P x y"
  by (induction rule: list_all2_induct) auto

lemma filter_err_eq_Inr:
  "filter_err p xs = Inr ys \<Longrightarrow> ys = filter (\<lambda>x. p x = Inr True) xs"
proof (induction xs arbitrary: ys)
  case Nil
  then show ?case by simp
next
  case (Cons x xs)
  then show ?case
    by (cases "p x"; cases "filter_err p xs") (auto split: if_splits)
qed

lemma filter_err_total:
  "list_all (\<lambda>x. \<exists>b. p x = Inr b) xs \<Longrightarrow> filter_err p xs = Inr (filter (\<lambda>x. p x = Inr True) xs)"
  by (induction xs) auto

subsection \<open>Numeric coercion\<close>

lemma parseInt_str_cases: "parseInt_str s = NaN \<or> (\<exists>x. parseInt_str s = Fin x)"
  by (simp add: parseInt_str_def Let_def split: prod.splits)

lemma parseInt_cases: "parseInt v = Inr n \<Longrightarrow> n = NaN \<or> (\<exists>x. n = Fin x)"
  using parseInt_str_cases by (auto simp: parseInt_def bind_err_eq_Inr)

lemma num_or_zero_parseInt: "parseInt v = Inr n \<Longrightarrow> \<exists>x. num_or_zero n = Fin x"
  by (drule parseInt_cases) (auto simp: num_or_zero_def num_truthy_def)

lemma ToString_primitive: "primitive v \<Longrightarrow> \<exists>s. ToString v = Inr s"
  by (cases v) simp_all

lemma parseInt_primitive: "primitive v \<Longrightarrow> \<exists>n. parseInt v = Inr n"
  by (drule ToString_primitive) (auto simp: parseInt_def)

lemma safeParseFloat_Num: "safeParseFloat (Num n) = Inr n"
  by (simp add: safeParseFloat_def)

lemma safeParseFloat_falsy:
  "\<not> truthy val \<Longrightarrow> \<forall>m. val \<noteq> Num m \<Longrightarrow> safeParseFloat val = Inr (Fin 0)"
  by (cases val) (simp_all add: safeParseFloat_def)

lemma safeParseFloat_truthy:
  assumes "truthy val" and "\<forall>m. val \<noteq> Num m" and "ToString val = Inr str"
  shows "safeParseFloat val =
           Inr (if parseFloat_str (trim (remove_commas str)) = NaN then Fin 0
                else parseFloat_str (trim (remove_commas str)))"
  using assms by (cases val) (simp_all add: safeParseFloat_def isNaN_def Let_def)

lemma safeParseFloat_primitive: "primitive v \<Longrightarrow> \<exists>n. safeParseFloat v = Inr n"
  by (cases v) (simp_all add: safeParseFloat_def Let_def)

lemma pos_toString_2020: "pos_toString 2020 = ''2020''"
  by (simp add: pos_toString_def Let_def nat_digits.simps frac_digits.simps digit_char_def pow10_def)

lemma parseInt_2020: "parseInt (Num (Fin 2020)) = Inr (Fin 2020)"
  by (simp add: parseInt_def parseInt_str_def pos_toString_2020 trimStart_def is_space_def
        hex_digit_def digits_value_def)

lemma parseInt_na: "parseInt (Str ''n/a'') = Inr NaN"
  by (simp add: parseInt_def parseInt_str_def trimStart_def is_space_def hex_digit_def)

lemmas parse_defs =
  safeParseFloat_def remove_commas_def trim_def trimStart_def is_space_def parseFloat_str_def
  exponent_part_def hex_digit_def digits_value_def pow10_def isNaN_def num_truthy_def Let_def

lemma safeParseFloat_million: "safeParseFloat (Str ''1,000,000'') = Inr (Fin 1000000)"
  by (simp add: parse_defs)

lemma safeParseFloat_Undefined: "safeParseFloat Undefined = Inr (Fin 0)"
  by (simp add: safeParseFloat_def)

text \<open>
  Claim C4, as the code has it. For every input other than the native number
  \<^verbatim>\<open>NaN\<close> whose conversion to a string does not throw (every number, string, boolean,
  \<^verbatim>\<open>null\<close> and missing value is such an input), \<^verbatim>\<open>safeParseFloat\<close> returns a number
  that is not \<^verbatim>\<open>NaN\<close>: a native number is returned as it is, any other falsy value
  gives 0, and any other value is converted to a string, stripped of commas, trimmed and
  parsed as floating point, with a parse that is \<^verbatim>\<open>NaN\<close> replaced by 0.
\<close>

theorem safeParseFloat_number_unless_NaN_passed:
  assumes "val \<noteq> Num NaN" and "ToString val = Inr str"
  shows "\<exists>n. safeParseFloat val = Inr n \<and> n \<noteq> NaN
            \<and> (\<forall>m. val = Num m \<longrightarrow> n = m)
            \<and> ((\<forall>m. val \<noteq> Num m) \<and> \<not> truthy val \<longrightarrow> n = Fin 0)
            \<and> ((\<forall>m. val \<noteq> Num m) \<and> truthy val \<longrightarrow>
                 n = (if parseFloat_str (trim (remove_commas str)) = NaN then Fin 0
                      else parseFloat_str (trim (remove_commas str))))"
proof (cases "\<exists>m. val = Num m")
  case True
  then obtain m where "val = Num m" by blast
  with assms(1) show ?thesis by (simp add: safeParseFloat_Num)
next
  case False
  then have nn: "\<forall>m. val \<noteq> Num m" by blast
  show ?thesis
  proof (cases "truthy val")
    case True
    from safeParseFloat_truthy [OF True nn assms(2)] nn True show ?thesis by simp
  next
    case False
    from safeParseFloat_falsy [OF False nn] nn False show ?thesis by simp
  qed
qed

theorem safeParseFloat_number_unless_NaN_passed_witness:
  "Str ''1,000,000'' \<noteq> Num NaN \<and> ToString (Str ''1,000,000'') = Inr ''1,000,000''
   \<and> safeParseFloat (Str ''1,000,000'') = Inr (Fin 1000000)"
  using safeParseFloat_number_unless_NaN_passed [of "Str ''1,000,000''" "''1,000,000''"]
  by (simp add: safeParseFloat_million)

text \<open>
  Claim C4 as stated fails on the native number \<^verbatim>\<open>NaN\<close>: the first line of the
  function returns every value of type number as it is. It also fails on a parsed JSON
  object that has a property \<^verbatim>\<open>toString\<close> of its own, where \<^verbatim>\<open>String(val)\<close> throws
  and no number is returned.
\<close>

theorem safeParseFloat_passes_NaN:
  "safeParseFloat (Num NaN) = Inr NaN
   \<and> safeParseFloat (Obj [(''toString'', Num (Fin 1))]) = Inl TypeError"
  by (simp add: safeParseFloat_def)

subsection \<open>The normalizer\<close>

lemma getRegion_primitive: "primitive v \<Longrightarrow> \<exists>r. getRegionFromCountry v = Inr r"
  by (frule ToString_primitive) (auto simp: getRegionFromCountry_def)

lemma primitive_js_or: "primitive p \<Longrightarrow> primitive (js_or p (Str s))"
  by (simp add: js_or_def)

lemma field2_total: "field row a = Inr x \<Longrightarrow> \<exists>y. field2 row b c = Inr y"
  by (cases row) (simp_all add: field2_def)

lemma trade_row_Inr:
  assumes "trade_row row = Inr d"
  shows "\<exists>year c. field2 row ''Year'' ''year_of_trade'' = Inr year
           \<and> field2 row ''Traded_Commodities'' ''commodity_description'' = Inr c
           \<and> (\<exists>y. parseInt year = Inr y \<and> Year d = num_or_zero y)
           \<and> Commodity d = js_or c (Str ''Unknown'')"
  using assms unfolding trade_row_def
  by (auto simp: bind_err_eq_Inr)

lemma trade_row_Year: "trade_row row = Inr d \<Longrightarrow> \<exists>x. Year d = Fin x"
  by (drule trade_row_Inr) (auto dest: num_or_zero_parseInt)

lemma well_formed_row_trade_row:
  assumes "well_formed_row row"
  shows "\<exists>d. trade_row row = Inr d \<and> is_string (Commodity d)"
proof -
  from assms obtain y p c tv w where
    f: "field2 row ''Year'' ''year_of_trade'' = Inr y"
       "field2 row ''Partner_Country'' ''partner_country_name'' = Inr p"
       "field2 row ''Traded_Commodities'' ''commodity_description'' = Inr c"
       "field row ''Trade_Value'' = Inr tv"
       "field row ''WeightofTradedGoods'' = Inr w"
    and p: "primitive y" "primitive p" "\<not> truthy c \<or> is_string c" "primitive tv" "primitive w"
    by (auto simp: well_formed_row_def split: sum.splits)
  from f(4) obtain fl where fl: "field2 row ''Flow_Description'' ''flow_description'' = Inr fl"
    using field2_total by blast
  from p(1) obtain n where n: "parseInt y = Inr n" using parseInt_primitive by blast
  from p(2) obtain r where r: "getRegionFromCountry (js_or p (Str ''Unknown'')) = Inr r"
    using getRegion_primitive primitive_js_or by blast
  from p(4) obtain v where v: "safeParseFloat tv = Inr v" using safeParseFloat_primitive by blast
  from p(5) obtain v' where v': "safeParseFloat w = Inr v'" using safeParseFloat_primitive by blast
  have "is_string (js_or c (Str ''Unknown''))" using p(3) by (auto simp: js_or_def)
  then show ?thesis
    by (simp add: trade_row_def f fl n r v v')
qed

lemma not_all_commodities_string:
  "is_string (Commodity d) \<Longrightarrow> \<exists>b. not_all_commodities d = Inr b"
  by (cases "Commodity d") (simp_all add: not_all_commodities_def)

lemma tradeData_Arr:
  "tradeData (Arr rows) =
     bind_err (map_err trade_row rows) (\<lambda>ds.
       filter_err not_all_commodities (filter (\<lambda>d. js_gt (Year d) (Fin 0)) ds))"
  by (simp add: tradeData_def)

lemma tradeData_not_array: "\<not> isArray raw \<Longrightarrow> tradeData raw = Inr []"
  by (simp add: tradeData_def)

lemma filter_kept:
  "filter (\<lambda>x. not_all_commodities x = Inr True) (filter (\<lambda>d. js_gt (Year d) (Fin 0)) ds)
     = filter kept ds"
  by (induction ds) (auto simp: kept_def)

lemma tradeData_Inr:
  assumes "tradeData raw = Inr recs" and "recs \<noteq> []"
  shows "\<exists>rows ds. raw = Arr rows \<and> list_all2 (\<lambda>row d. trade_row row = Inr d) rows ds
           \<and> recs = filter kept ds"
proof -
  from assms obtain rows where raw: "raw = Arr rows"
    by (cases raw) (auto simp: tradeData_def)
  with assms(1) obtain ds where ds: "map_err trade_row rows = Inr ds"
    and fe: "filter_err not_all_commodities (filter (\<lambda>d. js_gt (Year d) (Fin 0)) ds) = Inr recs"
    by (auto simp: tradeData_Arr bind_err_eq_Inr)
  from filter_err_eq_Inr [OF fe] have "recs = filter kept ds"
    by (simp only: filter_kept)
  with raw ds show ?thesis by (auto simp: map_err_eq_Inr)
qed

lemmas region_defs =
  getRegionFromCountry_def region_map_def inherited_member_def object_prototype_keys_def js_or_def

lemmas row_defs =
  field2_def trade_row_def parseInt_2020 parseInt_na safeParseFloat_million
  safeParseFloat_Undefined safeParseFloat_Num region_defs num_or_zero_def num_truthy_def

lemma trade_row_oil: "trade_row ex_row_oil = Inr ex_rec_oil"
  by (simp add: ex_row_oil_def ex_rec_oil_def row_defs)

lemma trade_row_total:
  "trade_row ex_row_total =
     Inr \<lparr>Year = Fin 2020, Flow = Str ''Export'', Partner = Str ''World'',
          Region = Str ''International'', Commodity = Str ''ALL Commodities'',
          Value = Fin 7, Weight = Fin 0\<rparr>"
  by (simp add: ex_row_total_def row_defs)

lemma trade_row_no_year:
  "trade_row ex_row_no_year =
     Inr \<lparr>Year = Fin 0, Flow = Str ''Import'', Partner = Str ''China'',
          Region = Str ''Asia'', Commodity = Num (Fin 27),
          Value = Fin 5, Weight = Fin 0\<rparr>"
  by (simp add: ex_row_no_year_def row_defs)

lemma trade_row_code:
  "trade_row ex_row_code =
     Inr \<lparr>Year = Fin 2020, Flow = Str ''Import'', Partner = Str ''China'',
          Region = Str ''Asia'', Commodity = Num (Fin 27),
          Value = Fin 5, Weight = Fin 0\<rparr>"
  by (simp add: ex_row_code_def row_defs)

lemma tradeData_example:
  "tradeData (Arr [ex_row_no_year, ex_row_total, ex_row_oil]) = Inr [ex_rec_oil]"
  by (simp add: tradeData_Arr trade_row_oil trade_row_total trade_row_no_year ex_rec_oil_def
        not_all_commodities_def str_includes_def toLowerCase_def sublist_code)

text \<open>
  Claim C6. Whenever the normalizer returns, its output holds no record with
  \<open>year \<le> 0\<close> (every year is a finite number above 0) and no record whose commodity
  text contains \<^verbatim>\<open>all commodities\<close> in any letter case: every commodity is a string
  whose lower-case form does not contain it.
\<close>

theorem normalizer_excludes_invalid_rows:
  assumes "tradeData raw = Inr recs" and "d \<in> set recs"
  shows "(\<exists>y. Year d = Fin y \<and> 0 < y)
       \<and> (\<exists>s. Commodity d = Str s \<and> \<not> str_includes (toLowerCase s) ''all commodities'')"
proof -
  from assms have "recs \<noteq> []" by auto
  from tradeData_Inr [OF assms(1) this] obtain rows ds where
    ds: "list_all2 (\<lambda>row d. trade_row row = Inr d) rows ds" and recs: "recs = filter kept ds"
    by blast
  from assms(2) recs have d: "d \<in> set ds" "kept d" by auto
  from list_all2_in_set [OF ds d(1)] obtain row where "trade_row row = Inr d" by blast
  then obtain y where y: "Year d = Fin y" using trade_row_Year by blast
  with d(2) have "0 < y" by (simp add: kept_def)
  moreover from d(2) have "\<exists>s. Commodity d = Str s \<and> \<not> str_includes (toLowerCase s) ''all commodities''"
    by (cases "Commodity d") (auto simp: kept_def not_all_commodities_def)
  ultimately show ?thesis using y by blast
qed

theorem normalizer_excludes_invalid_rows_witness:
  "tradeData (Arr [ex_row_no_year, ex_row_total, ex_row_oil]) = Inr [ex_rec_oil]
   \<and> ex_rec_oil \<in> set [ex_rec_oil]
   \<and> (\<exists>y. Year ex_rec_oil = Fin y \<and> 0 < y)
   \<and> (\<exists>s. Commodity ex_rec_oil = Str s \<and> \<not> str_includes (toLowerCase s) ''all commodities'')"
  using normalizer_excludes_invalid_rows
          [of "Arr [ex_row_no_year, ex_row_total, ex_row_oil]" "[ex_rec_oil]" ex_rec_oil]
        tradeData_example
  by simp

text \<open>
  Claim C3, as the code has it. An input that is not an array gives the empty
  sequence. An array of well-formed rows (no row is \<^verbatim>\<open>null\<close> or \<^verbatim>\<open>undefined\<close>; the
  year, partner, value and weight fields are primitive; the commodity is a string or
  falsy) never throws: every row yields exactly one record, and the output is those
  records without the ones the two filters drop.
\<close>

theorem tradeData_total_on_well_formed_rows:
  "(\<not> isArray raw \<longrightarrow> tradeData raw = Inr [])
   \<and> (list_all well_formed_row rows \<longrightarrow>
        (\<exists>ds. list_all2 (\<lambda>row d. trade_row row = Inr d) rows ds
             \<and> tradeData (Arr rows) = Inr (filter kept ds)))"
proof (intro conjI impI)
  assume "\<not> isArray raw"
  then show "tradeData raw = Inr []" by (rule tradeData_not_array)
next
  assume wf: "list_all well_formed_row rows"
  then have "list_all (\<lambda>row. \<exists>d. trade_row row = Inr d) rows"
    using well_formed_row_trade_row by (auto simp: list_all_iff)
  from map_err_total [OF this] obtain ds where ds: "map_err trade_row rows = Inr ds" by blast
  then have l2: "list_all2 (\<lambda>row d. trade_row row = Inr d) rows ds"
    by (simp add: map_err_eq_Inr)
  have "is_string (Commodity d)" if "d \<in> set ds" for d
  proof -
    from list_all2_in_set [OF l2 that] obtain row where row: "row \<in> set rows" "trade_row row = Inr d"
      by blast
    with wf have "well_formed_row row" by (simp add: list_all_iff)
    from well_formed_row_trade_row [OF this] row(2) show ?thesis by auto
  qed
  then have "list_all (\<lambda>d. \<exists>b. not_all_commodities d = Inr b) (filter (\<lambda>d. js_gt (Year d) (Fin 0)) ds)"
    using not_all_commodities_string by (auto simp: list_all_iff)
  from filter_err_total [OF this]
  have "tradeData (Arr rows) = Inr (filter kept ds)"
    by (simp only: tradeData_Arr ds bind_err_Inr filter_kept)
  with l2 show "\<exists>ds. list_all2 (\<lambda>row d. trade_row row = Inr d) rows ds
             \<and> tradeData (Arr rows) = Inr (filter kept ds)" by blast
qed

lemma well_formed_examples: "list_all well_formed_row [ex_row_total, ex_row_oil]"
  by (simp add: well_formed_row_def field2_def ex_row_total_def ex_row_oil_def num_truthy_def)

theorem tradeData_total_on_well_formed_rows_witness:
  "\<not> isArray (Str ''not a collection'') \<and> tradeData (Str ''not a collection'') = Inr []
   \<and> list_all well_formed_row [ex_row_total, ex_row_oil]
   \<and> (\<exists>ds. list_all2 (\<lambda>row d. trade_row row = Inr d) [ex_row_total, ex_row_oil] ds
          \<and> tradeData (Arr [ex_row_total, ex_row_oil]) = Inr (filter kept ds))"
  using tradeData_total_on_well_formed_rows
          [of "Str ''not a collection''" "[ex_row_total, ex_row_oil]"]
        well_formed_examples
  by simp

text \<open>
  Claim C3 as stated fails: a \<^verbatim>\<open>null\<close> row throws when its first field is read, and a
  row with a positive year whose commodity is a number (a bare commodity code) throws in
  the second filter, where \<^verbatim>\<open>toLowerCase\<close> is called on it.
\<close>

theorem tradeData_throws_on_malformed_row:
  "tradeData (Arr [Null]) = Inl TypeError \<and> tradeData (Arr [ex_row_code]) = Inl TypeError"
  by (simp add: tradeData_Arr trade_row_code not_all_commodities_def)
     (simp add: trade_row_def field2_def)

subsection \<open>The forecaster\<close>

lemma sums_depend_on_columns:
  assumes "map year h1 = map year h2" and "map key h1 = map key h2"
  shows "foldl (sums_step key) acc h1 = foldl (sums_step key) acc h2"
proof -
  from assms(1) have "length h1 = length h2" by (metis length_map)
  then show ?thesis using assms
    by (induction h1 h2 arbitrary: acc rule: list_induct2) (simp_all add: sums_step_def)
qed

lemma regression_depends_on_columns:
  assumes "map year h1 = map year h2" and "map key h1 = map key h2"
  shows "calculateLinearRegression h1 key = calculateLinearRegression h2 key"
proof -
  from assms(1) have len: "length h1 = length h2" by (metis length_map)
  have "key (h1 ! 0) = key (h2 ! 0)" if "0 < length h1"
    using that len assms(2) by (metis nth_map)
  with len sums_depend_on_columns [OF assms] show ?thesis
    by (simp add: calculateLinearRegression_def Let_def)
qed

lemma projection_fields:
  "year (projection e i y) = y"
  "isForecast (projection e i y)"
  "exports (projection e i y) = js_add (js_mul (slope e) y) (intercept e)"
  "imports' (projection e i y) = js_add (js_mul (slope i) y) (intercept i)"
  by (simp_all add: projection_def)

lemma sums_two_points:
  "foldl (sums_step exports) (Fin 0, Fin 0, Fin 0, Fin 0) [ex_point_2020, ex_point_2021]
     = (Fin 4041, Fin 30, Fin 60620, Fin 8164841)"
  "foldl (sums_step imports') (Fin 0, Fin 0, Fin 0, Fin 0) [ex_point_2020, ex_point_2021]
     = (Fin 4041, Fin 9, Fin 18184, Fin 8164841)"
  by (simp_all add: sums_step_def ex_point_2020_def ex_point_2021_def)

lemma regression_two_points:
  "calculateLinearRegression [ex_point_2020, ex_point_2021] exports = \<lparr>slope = Fin 10, intercept = Fin (- 20190)\<rparr>"
  "calculateLinearRegression [ex_point_2020, ex_point_2021] imports' = \<lparr>slope = Fin (- 1), intercept = Fin 2025\<rparr>"
  unfolding calculateLinearRegression_def sums_two_points
  by (simp_all add: js_sub_def)

lemma forecast_two_points:
  "forecastData [ex_point_2020, ex_point_2021] =
     [ex_point_2020, ex_point_2021,
      \<lparr>year = Fin 2022, exports = Fin 30, imports' = Fin 3, isForecast = True\<rparr>,
      \<lparr>year = Fin 2023, exports = Fin 40, imports' = Fin 2, isForecast = True\<rparr>]"
  unfolding forecastData_def projections_def regression_two_points Let_def
  by (simp add: projection_def ex_point_2021_def)

text \<open>
  Claim C7. A history with fewer than 2 points gets the degenerate fit: slope 0, and as
  intercept the metric of its single point, or 0 when it has none. In particular a
  history of length 1 gives \<^verbatim>\<open>{slope: 0, intercept: history[0][key]}\<close>.
\<close>

theorem regression_degenerate_below_two_points:
  assumes "length data < 2"
  shows "calculateLinearRegression data key =
           \<lparr>slope = Fin 0, intercept = (case data of [] \<Rightarrow> Fin 0 | pt # rest \<Rightarrow> key pt)\<rparr>"
  using assms by (cases data) (simp_all add: calculateLinearRegression_def)

theorem regression_degenerate_below_two_points_witness:
  "length [ex_point_2020] < 2
   \<and> calculateLinearRegression [ex_point_2020] exports = \<lparr>slope = Fin 0, intercept = Fin 10\<rparr>"
  using regression_degenerate_below_two_points [of "[ex_point_2020]" exports]
  by (simp add: ex_point_2020_def)

text \<open>
  Claim C8. For a history of length at least 1 the forecast is the history followed
  by exactly two projected points, for the years \<open>lastYear + 1\<close> and \<open>lastYear + 2\<close>;
  a projected point carries its year, the mark \<^verbatim>\<open>isForecast\<close> and, for each metric,
  \<open>slope * year + intercept\<close> of that metric's own fit. The fit of a metric depends on
  the years and on that metric only. The version that reads the precomputed trend
  series returns the same list.
\<close>

theorem forecast_appends_two_projections:
  assumes "history \<noteq> []"
  shows "forecastData history =
           history @
           [projection (calculateLinearRegression history exports)
                       (calculateLinearRegression history imports')
                       (js_add (year (last history)) (Fin 1)),
            projection (calculateLinearRegression history exports)
                       (calculateLinearRegression history imports')
                       (js_add (year (last history)) (Fin 2))]
         \<and> forecastData_trends (Some history) = Inr (forecastData history)
         \<and> (\<forall>e i y. year (projection e i y) = y \<and> isForecast (projection e i y)
                \<and> exports (projection e i y) = js_add (js_mul (slope e) y) (intercept e)
                \<and> imports' (projection e i y) = js_add (js_mul (slope i) y) (intercept i))
         \<and> (\<forall>h. map year h = map year history \<and> map exports h = map exports history \<longrightarrow>
                calculateLinearRegression h exports = calculateLinearRegression history exports)
         \<and> (\<forall>h. map year h = map year history \<and> map imports' h = map imports' history \<longrightarrow>
                calculateLinearRegression h imports' = calculateLinearRegression history imports')"
proof -
  have fd: "forecastData history =
           history @
           [projection (calculateLinearRegression history exports)
                       (calculateLinearRegression history imports')
                       (js_add (year (last history)) (Fin 1)),
            projection (calculateLinearRegression history exports)
                       (calculateLinearRegression history imports')
                       (js_add (year (last history)) (Fin 2))]"
    using assms by (simp add: forecastData_def projections_def Let_def)
  have ft: "forecastData_trends (Some history) = Inr (forecastData history)"
    using assms by (simp add: forecastData_def forecastData_trends_def)
  have pf: "\<forall>e i y. year (projection e i y) = y \<and> isForecast (projection e i y)
                \<and> exports (projection e i y) = js_add (js_mul (slope e) y) (intercept e)
                \<and> imports' (projection e i y) = js_add (js_mul (slope i) y) (intercept i)"
    by (simp add: projection_fields)
  have ie: "\<forall>h. map year h = map year history \<and> map exports h = map exports history \<longrightarrow>
                calculateLinearRegression h exports = calculateLinearRegression history exports"
    using regression_depends_on_columns by blast
  have ii: "\<forall>h. map year h = map year history \<and> map imports' h = map imports' history \<longrightarrow>
                calculateLinearRegression h imports' = calculateLinearRegression history imports'"
    using regression_depends_on_columns by blast
  from fd ft pf ie ii show ?thesis by (intro conjI)
qed

theorem forecast_appends_two_projections_witness:
  "[ex_point_2020, ex_point_2021] \<noteq> []
   \<and> forecastData [ex_point_2020, ex_point_2021] =
       [ex_point_2020, ex_point_2021,
        \<lparr>year = Fin 2022, exports = Fin 30, imports' = Fin 3, isForecast = True\<rparr>,
        \<lparr>year = Fin 2023, exports = Fin 40, imports' = Fin 2, isForecast = True\<rparr>]
   \<and> forecastData_trends (Some [ex_point_2020, ex_point_2021]) =
       Inr (forecastData [ex_point_2020, ex_point_2021])"
proof -
  have ne: "[ex_point_2020, ex_point_2021] \<noteq> []" by simp
  from forecast_appends_two_projections [OF ne]
  have "forecastData_trends (Some [ex_point_2020, ex_point_2021]) =
          Inr (forecastData [ex_point_2020, ex_point_2021])"
    by (elim conjE)
  with ne forecast_two_points show ?thesis by simp
qed

subsection \<open>The overview: waterfall and concentration risk\<close>

lemma trade_row_export: "trade_row ex_row_export = Inr ex_rec_export"
  by (simp add: ex_row_export_def ex_rec_export_def row_defs)

lemma trade_row_no_flow: "trade_row ex_row_no_flow = Inr ex_rec_unknown"
  by (simp add: ex_row_no_flow_def ex_rec_unknown_def row_defs)

lemma tradeData_no_flow: "tradeData (Arr [ex_row_export, ex_row_no_flow]) = Inr [ex_rec_export, ex_rec_unknown]"
  by (simp add: tradeData_Arr trade_row_export trade_row_no_flow)
     (simp add: ex_rec_export_def ex_rec_unknown_def
        not_all_commodities_def str_includes_def toLowerCase_def sublist_code)

lemma currentYearData_no_flow:
  "currentYearData (Num (Fin 2020)) [ex_rec_export, ex_rec_unknown] = Inr [ex_rec_export, ex_rec_unknown]"
  by (simp add: currentYearData_def num_truthy_def parseInt_2020 js_num_eq_def
        ex_rec_export_def ex_rec_unknown_def)

lemma kpi_totals_no_flow: "kpi_totals [ex_rec_export, ex_rec_unknown] = Inr (Fin 100, Fin 0)"
  by (simp add: kpi_totals_def kpi_step_def flow_includes_def str_includes_def sublist_code
        ex_rec_export_def ex_rec_unknown_def)

lemma partnerTotals_no_flow:
  "fold_err partnerTotals_step [] [ex_rec_export, ex_rec_unknown]
     = Inr [(''Italy'', Total (Fin 100)), (''China'', Total (Fin 300))]"
  by (simp add: partnerTotals_step_def inherited_def object_prototype_keys_def
        ex_rec_export_def ex_rec_unknown_def)

lemma top3Sum_no_flow:
  "top3Sum [(''Italy'', Total (Fin 100)), (''China'', Total (Fin 300))] = Total (Fin 400)"
  by (simp add: top3Sum_def Object_values_def array_index_def is_digit_def js_sort_def js_sub_def)

lemma concentrationRisk_no_flow: "concentrationRisk [ex_rec_export, ex_rec_unknown] = Inr (Fin 400)"
  unfolding concentrationRisk_def kpi_totals_no_flow partnerTotals_no_flow
  by (simp add: top3Sum_no_flow)

text \<open>
  Claim C2 fails on the code where the net balance is 0. Both versions choose the fill
  of the third bar by \<^verbatim>\<open>net > 0\<close>, so a net of exactly 0 gets the colour of imports,
  while the claim, and the net-balance card of the same page (\<^verbatim>\<open>net >= 0\<close>), put 0
  with the non-negative values. The other parts of the claim hold at this input: three
  bars, the second \<open>- imports\<close>, the third the sum of the first two.
\<close>

theorem waterfall_net_zero_is_import_coloured:
  "waterfall (Fin 5) (Fin 5) =
     [\<lparr>name = ''Exports'', value' = Fin 5, fill = COLORS_export\<rparr>,
      \<lparr>name = ''Imports'', value' = Fin (- 5), fill = COLORS_import\<rparr>,
      \<lparr>name = ''Net'', value' = Fin 0, fill = COLORS_import\<rparr>]
   \<and> waterfall_kpi \<lparr>kpi_exports = Fin 5, kpi_imports = Fin 5, kpi_net = Fin 0\<rparr> = waterfall (Fin 5) (Fin 5)
   \<and> js_ge (Fin 0) (Fin 0)
   \<and> net_card_class (Fin 0) = ''text-emerald-600''"
  by (simp add: waterfall_def waterfall_kpi_def js_sub_def js_ge_def js_num_eq_def net_card_class_def)

text \<open>
  Claim C1 fails on the code. The partner totals add the value of every row of the
  year, while the total volume adds only the rows whose flow contains \<^verbatim>\<open>Export\<close> or
  \<^verbatim>\<open>Import\<close>. A row with no flow description is normalized to the flow
  \<^verbatim>\<open>"Unknown"\<close>, counts for its partner and not for the volume, and the share of the
  top 3 partners comes out as 400 percent, with every value non-negative.
\<close>

theorem concentrationRisk_above_100:
  "tradeData (Arr [ex_row_export, ex_row_no_flow]) = Inr [ex_rec_export, ex_rec_unknown]
   \<and> currentYearData (Num (Fin 2020)) [ex_rec_export, ex_rec_unknown] = Inr [ex_rec_export, ex_rec_unknown]
   \<and> concentrationRisk [ex_rec_export, ex_rec_unknown] = Inr (Fin 400)"
  by (simp only: tradeData_no_flow currentYearData_no_flow concentrationRisk_no_flow simp_thms)

theorem concentrationRisk_above_100_witness:
  "\<exists>r. concentrationRisk [ex_rec_export, ex_rec_unknown] = Inr (Fin r) \<and> 100 < r"
  using concentrationRisk_above_100 by simp

subsection \<open>Flow buckets\<close>

lemma map_of_obj_put: "map_of (obj_put kvs k v) k' = (if k' = k then Some v else map_of kvs k')"
  by (induction kvs k v rule: obj_put.induct) auto

lemma kpi_step_Inr:
  assumes "kpi_step (e0, i0) row = Inr (e1, i1)"
  shows "adds_by_flow row (e0, i0) (e1, i1)"
  using assms
  by (auto simp: kpi_step_def adds_by_flow_def flow_has_def bind_err_eq_Inr)

lemma kpi_fold_sums:
  "fold_err kpi_step (e0, i0) rows = Inr (e, i) \<Longrightarrow>
     e = foldl js_add e0 (map Value (filter (flow_has ''Export'') rows))
     \<and> i = foldl js_add i0 (map Value (filter (flow_has ''Import'') rows))"
proof (induction rows arbitrary: e0 i0)
  case Nil
  then show ?case by simp
next
  case (Cons row rows)
  from Cons.prems obtain e1 i1 where
    step: "kpi_step (e0, i0) row = Inr (e1, i1)" and rest: "fold_err kpi_step (e1, i1) rows = Inr (e, i)"
    by (cases "kpi_step (e0, i0) row") auto
  from kpi_step_Inr [OF step] Cons.IH [OF rest] show ?case
    by (simp add: adds_by_flow_def)
qed

lemma history_step_Inr:
  assumes "history_step h row = Inr h'"
  shows "adds_by_flow row (exports (point_at h row), imports' (point_at h row))
                          (exports (point_at h' row), imports' (point_at h' row))"
  using assms
  by (auto simp: history_step_def Let_def adds_by_flow_def flow_has_def bind_err_eq_Inr
        point_at_def map_of_obj_put split: option.splits)

lemma rollup_add_buckets:
  assumes "map_of groups k \<noteq> None \<or> \<not> inherited k"
  shows "rollup_at (rollup_add groups k nm e i v) k =
           (if e then js_add (fst (rollup_at groups k)) v else fst (rollup_at groups k),
            if i then js_add (snd (rollup_at groups k)) v else snd (rollup_at groups k))"
  using assms
  by (auto simp: rollup_add_def rollup_at_def map_of_obj_put split: option.splits)

lemma geo_step_Inr:
  assumes "geo_step (ps, rs) row = Inr (ps', rs')"
  shows "\<exists>pk rk. ToString (Partner row) = Inr pk \<and> ToString (Region row) = Inr rk
           \<and> (map_of ps pk \<noteq> None \<or> \<not> inherited pk \<longrightarrow>
                adds_by_flow row (rollup_at ps pk) (rollup_at ps' pk))
           \<and> (map_of rs rk \<noteq> None \<or> \<not> inherited rk \<longrightarrow>
                adds_by_flow row (rollup_at rs rk) (rollup_at rs' rk))"
proof -
  from assms obtain pk rk e i where
    k: "ToString (Partner row) = Inr pk" "ToString (Region row) = Inr rk"
    and f: "flow_includes (Flow row) ''Export'' = Inr e" "flow_includes (Flow row) ''Import'' = Inr i"
    and r: "ps' = rollup_add ps pk (Partner row) e i (Value row)"
           "rs' = rollup_add rs rk (Region row) e i (Value row)"
    by (auto simp: geo_step_def bind_err_eq_Inr)
  from f have fh: "flow_has ''Export'' row = e" "flow_has ''Import'' row = i"
    by (simp_all add: flow_has_def)
  show ?thesis
    using k by (auto simp: r rollup_add_buckets adds_by_flow_def fh)
qed

lemmas flow_defs = flow_includes_def str_includes_def sublist_code

lemma kpi_totals_both: "kpi_totals [ex_rec_export, ex_rec_both] = Inr (Fin 105, Fin 5)"
  by (simp add: kpi_totals_def kpi_step_def flow_defs ex_rec_export_def ex_rec_both_def)

lemma kpi_step_both: "kpi_step (Fin 0, Fin 0) ex_rec_both = Inr (Fin 5, Fin 5)"
  by (simp add: kpi_step_def flow_defs ex_rec_both_def)

lemma history_step_both:
  "history_step [] ex_rec_both =
     Inr [(''2020'', \<lparr>year = Fin 2020, exports = Fin 5, imports' = Fin 5, isForecast = False\<rparr>)]"
  by (simp add: history_step_def flow_defs ex_rec_both_def pos_toString_2020)

lemma Object_values_2020: "Object_values [(''2020'', x)] = [x]"
  by (simp add: Object_values_def array_index_def is_digit_def hex_digit_def digits_value_def)

lemma history_of_both:
  "history_of [ex_rec_both] =
     Inr [\<lparr>year = Fin 2020, exports = Fin 5, imports' = Fin 5, isForecast = False\<rparr>]"
  by (simp add: history_of_def history_step_both Object_values_2020 js_sort_def)

lemma geo_step_both:
  "geo_step ([], []) ex_rec_both =
     Inr ([(''Italy'', \<lparr>r_name = Str ''Italy'', r_exports = Fin 5, r_imports = Fin 5\<rparr>)],
          [(''Europe'', \<lparr>r_name = Str ''Europe'', r_exports = Fin 5, r_imports = Fin 5\<rparr>)])"
  by (simp add: geo_step_def rollup_add_def inherited_def object_prototype_keys_def flow_defs
        ex_rec_both_def)

lemma flow_has_both: "flow_has ''Export'' ex_rec_both" "flow_has ''Import'' ex_rec_both"
  by (simp_all add: flow_has_def flow_defs ex_rec_both_def)

text \<open>
  Claim C5, as the code has it. The flow of a record is tested twice, once for the
  substring \<^verbatim>\<open>Export\<close> and once for \<^verbatim>\<open>Import\<close>, and the two tests are independent:
  in the KPI totals, the yearly history and the partner and region rollups the value of
  a record is added to the exports bucket exactly when its flow contains
  \<^verbatim>\<open>Export\<close>, and to the imports bucket exactly when it contains \<^verbatim>\<open>Import\<close>. So the
  export total of a year is the sum over the records with \<^verbatim>\<open>Export\<close> in the flow,
  the import total the sum over those with \<^verbatim>\<open>Import\<close>, and a record is added to at
  most one bucket when its flow does not contain both words.
\<close>

theorem flow_buckets_follow_substrings:
  "(kpi_totals rows = Inr (ex, im) \<longrightarrow>
      ex = js_sum (map Value (filter (flow_has ''Export'') rows))
      \<and> im = js_sum (map Value (filter (flow_has ''Import'') rows)))
   \<and> (kpi_step (e0, i0) row = Inr (e1, i1) \<longrightarrow> adds_by_flow row (e0, i0) (e1, i1))
   \<and> (history_step h row = Inr h' \<longrightarrow>
        adds_by_flow row (exports (point_at h row), imports' (point_at h row))
                         (exports (point_at h' row), imports' (point_at h' row)))
   \<and> (geo_step (ps, rs) row = Inr (ps', rs') \<longrightarrow>
        (\<exists>pk rk. ToString (Partner row) = Inr pk \<and> ToString (Region row) = Inr rk
           \<and> (map_of ps pk \<noteq> None \<or> \<not> inherited pk \<longrightarrow>
                adds_by_flow row (rollup_at ps pk) (rollup_at ps' pk))
           \<and> (map_of rs rk \<noteq> None \<or> \<not> inherited rk \<longrightarrow>
                adds_by_flow row (rollup_at rs rk) (rollup_at rs' rk))))
   \<and> (adds_by_flow row before after \<and> \<not> (flow_has ''Export'' row \<and> flow_has ''Import'' row) \<longrightarrow>
        fst after = fst before \<or> snd after = snd before)"
proof (intro conjI impI)
  assume "kpi_totals rows = Inr (ex, im)"
  then show "ex = js_sum (map Value (filter (flow_has ''Export'') rows))"
    and "im = js_sum (map Value (filter (flow_has ''Import'') rows))"
    using kpi_fold_sums by (auto simp: kpi_totals_def js_sum_def)
next
  assume "kpi_step (e0, i0) row = Inr (e1, i1)"
  then show "adds_by_flow row (e0, i0) (e1, i1)" by (rule kpi_step_Inr)
next
  assume "history_step h row = Inr h'"
  then show "adds_by_flow row (exports (point_at h row), imports' (point_at h row))
                         (exports (point_at h' row), imports' (point_at h' row))"
    by (rule history_step_Inr)
next
  assume "geo_step (ps, rs) row = Inr (ps', rs')"
  then show "\<exists>pk rk. ToString (Partner row) = Inr pk \<and> ToString (Region row) = Inr rk
           \<and> (map_of ps pk \<noteq> None \<or> \<not> inherited pk \<longrightarrow>
                adds_by_flow row (rollup_at ps pk) (rollup_at ps' pk))
           \<and> (map_of rs rk \<noteq> None \<or> \<not> inherited rk \<longrightarrow>
                adds_by_flow row (rollup_at rs rk) (rollup_at rs' rk))"
    by (rule geo_step_Inr)
next
  assume "adds_by_flow row before after \<and> \<not> (flow_has ''Export'' row \<and> flow_has ''Import'' row)"
  then show "fst after = fst before \<or> snd after = snd before"
    by (auto simp: adds_by_flow_def)
qed

theorem flow_buckets_follow_substrings_witness:
  "kpi_totals [ex_rec_export, ex_rec_both] = Inr (Fin 105, Fin 5)
   \<and> Fin 105 = js_sum (map Value (filter (flow_has ''Export'') [ex_rec_export, ex_rec_both]))
   \<and> Fin 5 = js_sum (map Value (filter (flow_has ''Import'') [ex_rec_export, ex_rec_both]))
   \<and> kpi_step (Fin 0, Fin 0) ex_rec_both = Inr (Fin 5, Fin 5)
   \<and> adds_by_flow ex_rec_both (Fin 0, Fin 0) (Fin 5, Fin 5)
   \<and> history_step [] ex_rec_both =
       Inr [(''2020'', \<lparr>year = Fin 2020, exports = Fin 5, imports' = Fin 5, isForecast = False\<rparr>)]
   \<and> exports (point_at [(''2020'', \<lparr>year = Fin 2020, exports = Fin 5, imports' = Fin 5,
                                    isForecast = False\<rparr>)] ex_rec_both) =
       js_add (exports (point_at [] ex_rec_both)) (Value ex_rec_both)
   \<and> geo_step ([], []) ex_rec_both =
       Inr ([(''Italy'', \<lparr>r_name = Str ''Italy'', r_exports = Fin 5, r_imports = Fin 5\<rparr>)],
            [(''Europe'', \<lparr>r_name = Str ''Europe'', r_exports = Fin 5, r_imports = Fin 5\<rparr>)])
   \<and> adds_by_flow ex_rec_both (rollup_at [] ''Italy'')
         (rollup_at [(''Italy'', \<lparr>r_name = Str ''Italy'', r_exports = Fin 5, r_imports = Fin 5\<rparr>)] ''Italy'')
   \<and> kpi_step (Fin 0, Fin 0) ex_rec_export = Inr (Fin 100, Fin 0)
   \<and> adds_by_flow ex_rec_export (Fin 0, Fin 0) (Fin 100, Fin 0)
   \<and> \<not> (flow_has ''Export'' ex_rec_export \<and> flow_has ''Import'' ex_rec_export)
   \<and> (fst (Fin 100, Fin 0) = fst (Fin 0 :: jsnum, Fin 0 :: jsnum)
        \<or> snd (Fin 100 :: jsnum, Fin 0 :: jsnum) = snd (Fin 0 :: jsnum, Fin 0 :: jsnum))"
proof -
  note t = flow_buckets_follow_substrings
             [of "[ex_rec_export, ex_rec_both]" "Fin 105" "Fin 5" "Fin 0" "Fin 0" ex_rec_both
                 "Fin 5" "Fin 5" "[]"
                 "[(''2020'', \<lparr>year = Fin 2020, exports = Fin 5, imports' = Fin 5, isForecast = False\<rparr>)]"
                 "[]" "[]"
                 "[(''Italy'', \<lparr>r_name = Str ''Italy'', r_exports = Fin 5, r_imports = Fin 5\<rparr>)]"
                 "[(''Europe'', \<lparr>r_name = Str ''Europe'', r_exports = Fin 5, r_imports = Fin 5\<rparr>)]"
                 "(Fin 0, Fin 0)" "(Fin 5, Fin 5)"]
  note s = t [THEN conjunct1, THEN mp, OF kpi_totals_both]
  note a = t [THEN conjunct2, THEN conjunct1, THEN mp, OF kpi_step_both]
  note hh = t [THEN conjunct2, THEN conjunct2, THEN conjunct1, THEN mp, OF history_step_both]
  note gg = t [THEN conjunct2, THEN conjunct2, THEN conjunct2, THEN conjunct1, THEN mp,
               OF geo_step_both]
  from hh have h: "exports (point_at [(''2020'', \<lparr>year = Fin 2020, exports = Fin 5, imports' = Fin 5,
                                    isForecast = False\<rparr>)] ex_rec_both) =
       js_add (exports (point_at [] ex_rec_both)) (Value ex_rec_both)"
    by (simp add: adds_by_flow_def flow_has_both)
  from gg have g: "adds_by_flow ex_rec_both (rollup_at [] ''Italy'')
         (rollup_at [(''Italy'', \<lparr>r_name = Str ''Italy'', r_exports = Fin 5, r_imports = Fin 5\<rparr>)] ''Italy'')"
    by (clarsimp simp: ex_rec_both_def inherited_def object_prototype_keys_def)
  have ke: "kpi_step (Fin 0, Fin 0) ex_rec_export = Inr (Fin 100, Fin 0)"
    by (simp add: kpi_step_def flow_defs ex_rec_export_def)
  note t2 = flow_buckets_follow_substrings
             [of "[]" "Fin 0" "Fin 0" "Fin 0" "Fin 0" ex_rec_export "Fin 100" "Fin 0" "[]" "[]" "[]" "[]"
                 "[]" "[]" "(Fin 0, Fin 0)" "(Fin 100, Fin 0)"]
  note e1 = t2 [THEN conjunct2, THEN conjunct1, THEN mp, OF ke]
  have e2: "\<not> (flow_has ''Export'' ex_rec_export \<and> flow_has ''Import'' ex_rec_export)"
    by (simp add: flow_has_def flow_defs ex_rec_export_def)
  note e3 = t2 [THEN conjunct2, THEN conjunct2, THEN conjunct2, THEN conjunct2, THEN mp,
                OF conjI [OF e1 e2]]
  note s1 = s [THEN conjunct1]
  note s2 = s [THEN conjunct2]
  from s1 s2 a h g ke e1 e2 e3 kpi_totals_both kpi_step_both history_step_both geo_step_both
  show ?thesis by (intro conjI)
qed

text \<open>
  Claim C5 as stated fails: a record whose flow description contains both words is
  added to both buckets, in the KPI totals, in the history and in the rollups.
\<close>

theorem record_added_to_both_buckets:
  "kpi_totals [ex_rec_both] = Inr (Fin 5, Fin 5)
   \<and> history_of [ex_rec_both] =
       Inr [\<lparr>year = Fin 2020, exports = Fin 5, imports' = Fin 5, isForecast = False\<rparr>]
   \<and> geo_step ([], []) ex_rec_both =
       Inr ([(''Italy'', \<lparr>r_name = Str ''Italy'', r_exports = Fin 5, r_imports = Fin 5\<rparr>)],
            [(''Europe'', \<lparr>r_name = Str ''Europe'', r_exports = Fin 5, r_imports = Fin 5\<rparr>)])"
  using history_of_both geo_step_both
  by (simp add: kpi_totals_def kpi_step_def flow_defs ex_rec_both_def)

subsection \<open>Commodity names\<close>

lemma set_obj_put: "set (obj_put kvs k v) \<subseteq> insert (k, v) (set kvs)"
  by (induction kvs k v rule: obj_put.induct) auto

lemma set_Object_values: "set (Object_values obj) \<subseteq> snd ` set obj"
  by (auto simp: Object_values_def split: option.splits) force+

lemma set_insort_cmp: "set (insort_cmp cmp x ys) = insert x (set ys)"
  by (induction ys) auto

lemma set_js_sort: "set (js_sort cmp xs) = set xs"
  by (induction xs) (simp_all add: js_sort_def set_insort_cmp)

lemma commodity_step_total:
  "is_string (Commodity row) \<Longrightarrow> \<exists>groups'. commodity_step groups row = Inr groups'"
  by (cases "Commodity row") (auto simp: commodity_step_def Let_def split: option.splits)

lemma commodity_fold_total:
  "list_all (\<lambda>row. is_string (Commodity row)) rows \<Longrightarrow>
     \<exists>groups'. fold_err commodity_step groups rows = Inr groups'"
proof (induction rows arbitrary: groups)
  case Nil
  then show ?case by simp
next
  case (Cons row rows)
  from Cons.prems have "is_string (Commodity row)" by simp
  then obtain g1 where "commodity_step groups row = Inr g1"
    using commodity_step_total by blast
  with Cons show ?case by simp
qed

lemma commodity_step_named:
  assumes "commodity_step groups row = Inr groups'" and "named_from R groups" and "row \<in> R"
  shows "named_from R groups'"
proof -
  from assms(1) obtain s where s: "Commodity row = Str s"
    by (cases "Commodity row") (auto simp: commodity_step_def)
  show ?thesis
  proof (cases "map_of groups (clean_name s)")
    case None
    show ?thesis
    proof (cases "inherited (clean_name s)")
      case True
      with None s assms(1,2) show ?thesis by (simp add: commodity_step_def Let_def)
    next
      case False
      with None s assms(1) have g': "groups' = obj_put groups (clean_name s)
          \<lparr>g_name = clean_name s, g_value = js_add (Fin 0) (Value row),
           g_weight = js_add (Fin 0) (num_or_zero (Weight row))\<rparr>"
        by (auto simp: commodity_step_def Let_def)
      show ?thesis
        unfolding named_from_def
      proof (intro allI impI)
        fix k g assume "(k, g) \<in> set groups'"
        with g' set_obj_put have "(k, g) \<in> set groups \<or> g_name g = clean_name s"
          by fastforce
        with assms(2,3) s show "\<exists>r s. r \<in> R \<and> Commodity r = Str s \<and> g_name g = clean_name s"
          by (auto simp: named_from_def)
      qed
    qed
  next
    case (Some g0)
    then have in0: "(clean_name s, g0) \<in> set groups" by (rule map_of_SomeD)
    from Some s assms(1) have g': "groups' = obj_put groups (clean_name s)
          (g0\<lparr>g_value := js_add (g_value g0) (Value row),
              g_weight := js_add (g_weight g0) (num_or_zero (Weight row))\<rparr>)"
      by (auto simp: commodity_step_def Let_def)
    show ?thesis
      unfolding named_from_def
    proof (intro allI impI)
      fix k g assume "(k, g) \<in> set groups'"
      with g' set_obj_put have "(k, g) \<in> set groups \<or> g_name g = g_name g0"
        by fastforce
      with assms(2) in0 show "\<exists>r s. r \<in> R \<and> Commodity r = Str s \<and> g_name g = clean_name s"
        by (auto simp: named_from_def)
    qed
  qed
qed

lemma commodity_fold_named:
  "fold_err commodity_step groups rows = Inr groups' \<Longrightarrow> named_from R groups \<Longrightarrow>
     set rows \<subseteq> R \<Longrightarrow> named_from R groups'"
proof (induction rows arbitrary: groups)
  case Nil
  then show ?case by simp
next
  case (Cons row rows)
  from Cons.prems(1) obtain g1 where
    step: "commodity_step groups row = Inr g1" and rest: "fold_err commodity_step g1 rows = Inr groups'"
    by (cases "commodity_step groups row") auto
  from commodity_step_named [OF step Cons.prems(2)] Cons.prems(3) have "named_from R g1" by simp
  from Cons.IH [OF rest this] Cons.prems(3) show ?case by simp
qed

lemma commodity_sorted_names:
  assumes "commodity_sorted rows = Inr gs" and "g \<in> set gs"
  shows "\<exists>r s. r \<in> set rows \<and> Commodity r = Str s \<and> g_name g = clean_name s"
proof -
  from assms(1) obtain groups where f: "fold_err commodity_step [] rows = Inr groups"
    and gs: "gs = js_sort (\<lambda>a b. js_sub (g_value b) (g_value a)) (Object_values groups)"
    by (auto simp: commodity_sorted_def bind_err_eq_Inr)
  have "named_from (set rows) []" by (simp add: named_from_def)
  from commodity_fold_named [OF f this] have n: "named_from (set rows) groups" by simp
  from assms(2) gs have "g \<in> set (Object_values groups)" by (simp add: set_js_sort)
  with set_Object_values obtain k where "(k, g) \<in> set groups" by fastforce
  with n show ?thesis by (auto simp: named_from_def)
qed

lemma tradeData_commodity_string:
  assumes "tradeData raw = Inr recs" and "d \<in> set recs"
  shows "is_string (Commodity d)"
proof -
  from assms have "recs \<noteq> []" by auto
  from tradeData_Inr [OF assms(1) this] assms(2) have "kept d" by auto
  then show ?thesis
    by (cases "Commodity d") (auto simp: kept_def not_all_commodities_def)
qed

lemma tradeData_commodity_raw:
  assumes "tradeData raw = Inr recs" and "d \<in> set recs"
  shows "\<exists>rows row c. raw = Arr rows \<and> row \<in> set rows
           \<and> field2 row ''Traded_Commodities'' ''commodity_description'' = Inr c
           \<and> Commodity d = js_or c (Str ''Unknown'')"
proof -
  from assms have "recs \<noteq> []" by auto
  from tradeData_Inr [OF assms(1) this] obtain rows ds where
    raw: "raw = Arr rows" and ds: "list_all2 (\<lambda>row d. trade_row row = Inr d) rows ds"
    and recs: "recs = filter kept ds"
    by blast
  from assms(2) recs have "d \<in> set ds" by auto
  from list_all2_in_set [OF ds this] obtain row where row: "row \<in> set rows" "trade_row row = Inr d"
    by blast
  from trade_row_Inr [OF row(2)] raw row(1) show ?thesis by blast
qed

lemma commodity_sorted_oil:
  "commodity_sorted [ex_rec_oil] = Inr [\<lparr>g_name = ''Oil'', g_value = Fin 1000000, g_weight = Fin 0\<rparr>]"
  by (simp add: commodity_sorted_def commodity_step_def ex_rec_oil_def clean_name_def strip_code_def
        is_digit_def is_space_def inherited_def object_prototype_keys_def num_or_zero_def
        num_truthy_def Object_values_def array_index_def js_sort_def Let_def)

lemma tradeData_oil: "tradeData (Arr [ex_row_oil]) = Inr [ex_rec_oil]"
  by (simp add: tradeData_Arr trade_row_oil)
     (simp add: ex_rec_oil_def not_all_commodities_def str_includes_def toLowerCase_def sublist_code)

text \<open>
  Claim C10, as the code has it. The commodity field of a normalized record is the raw
  commodity text of its row, unchanged: the first truthy one of
  \<^verbatim>\<open>Traded_Commodities\<close>, \<^verbatim>\<open>commodity_description\<close> and \<^verbatim>\<open>"Unknown"\<close>. The cleaning
  is applied later, in the commodity rollup only: on the output of the normalizer the
  rollup never throws, and each of its groups is named by the cleaned text of a record
  (the part before the first semicolon, without a leading numeric code).
\<close>

theorem commodity_cleaned_only_in_rollup:
  assumes "tradeData raw = Inr recs"
  shows "(d \<in> set recs \<longrightarrow>
            (\<exists>rows row c. raw = Arr rows \<and> row \<in> set rows
               \<and> field2 row ''Traded_Commodities'' ''commodity_description'' = Inr c
               \<and> Commodity d = js_or c (Str ''Unknown'')))
         \<and> (\<exists>gs. commodity_sorted recs = Inr gs
               \<and> commodityStats recs = Inr (take 10 gs, take 30 gs)
               \<and> (\<forall>g. g \<in> set gs \<longrightarrow>
                     (\<exists>r s. r \<in> set recs \<and> Commodity r = Str s \<and> g_name g = clean_name s)))"
proof (intro conjI impI)
  assume "d \<in> set recs"
  with assms show "\<exists>rows row c. raw = Arr rows \<and> row \<in> set rows
               \<and> field2 row ''Traded_Commodities'' ''commodity_description'' = Inr c
               \<and> Commodity d = js_or c (Str ''Unknown'')"
    by (rule tradeData_commodity_raw)
next
  from assms have "list_all (\<lambda>row. is_string (Commodity row)) recs"
    using tradeData_commodity_string by (auto simp: list_all_iff)
  from commodity_fold_total [OF this] obtain groups where
    "fold_err commodity_step [] recs = Inr groups" by blast
  then obtain gs where gs: "commodity_sorted recs = Inr gs"
    by (simp add: commodity_sorted_def)
  then have "commodityStats recs = Inr (take 10 gs, take 30 gs)"
    by (simp add: commodityStats_def)
  with gs commodity_sorted_names [OF gs]
  show "\<exists>gs. commodity_sorted recs = Inr gs
               \<and> commodityStats recs = Inr (take 10 gs, take 30 gs)
               \<and> (\<forall>g. g \<in> set gs \<longrightarrow>
                     (\<exists>r s. r \<in> set recs \<and> Commodity r = Str s \<and> g_name g = clean_name s))"
    by blast
qed

theorem commodity_cleaned_only_in_rollup_witness:
  "tradeData (Arr [ex_row_oil]) = Inr [ex_rec_oil]
   \<and> ex_rec_oil \<in> set [ex_rec_oil]
   \<and> (\<exists>rows row c. Arr [ex_row_oil] = Arr rows \<and> row \<in> set rows
          \<and> field2 row ''Traded_Commodities'' ''commodity_description'' = Inr c
          \<and> Commodity ex_rec_oil = js_or c (Str ''Unknown''))
   \<and> commodity_sorted [ex_rec_oil] =
       Inr [\<lparr>g_name = ''Oil'', g_value = Fin 1000000, g_weight = Fin 0\<rparr>]"
proof -
  from commodity_cleaned_only_in_rollup [OF tradeData_oil, of ex_rec_oil]
  have "\<exists>rows row c. Arr [ex_row_oil] = Arr rows \<and> row \<in> set rows
          \<and> field2 row ''Traded_Commodities'' ''commodity_description'' = Inr c
          \<and> Commodity ex_rec_oil = js_or c (Str ''Unknown'')"
    by simp
  with tradeData_oil commodity_sorted_oil show ?thesis by simp
qed

text \<open>
  Claim C10 as stated fails: the normalizer keeps the code prefix of the raw text
  \<^verbatim>\<open>12 - Oil\<close>, whose cleaned form is \<^verbatim>\<open>Oil\<close>.
\<close>

theorem normalizer_keeps_raw_commodity:
  "tradeData (Arr [ex_row_oil]) = Inr [ex_rec_oil]
   \<and> Commodity ex_rec_oil = Str ''12 - Oil''
   \<and> clean_name ''12 - Oil'' = ''Oil''"
  using tradeData_oil
  by (simp add: ex_rec_oil_def clean_name_def strip_code_def is_digit_def is_space_def)

subsection \<open>Indicator codes\<close>

lemma pos_toString_2021: "pos_toString 2021 = ''2021''"
  by (simp add: pos_toString_def Let_def nat_digits.simps frac_digits.simps digit_char_def pow10_def)

lemma parseInt_2021: "parseInt (Num (Fin 2021)) = Inr (Fin 2021)"
  by (simp add: parseInt_def parseInt_str_def pos_toString_2021 trimStart_def is_space_def
        hex_digit_def digits_value_def)

lemma safeParseFloat_indicator_values:
  "safeParseFloat (Str ''4.5'') = Inr (Fin 4.5)"
  "safeParseFloat (Str ''6.2'') = Inr (Fin 6.2)"
  "safeParseFloat (Str ''3500'') = Inr (Fin 3500)"
  by (simp_all add: parse_defs)

lemma parseFloat_indicator_values:
  "parseFloat (Str ''4.5'') = Inr (Fin 4.5)"
  "parseFloat (Str ''6.2'') = Inr (Fin 6.2)"
  "parseFloat (Str ''3500'') = Inr (Fin 3500)"
  by (simp_all add: parseFloat_def parse_defs)

lemma wb_step_gdp:
  "wb_step [] ex_wb_gdp = Inr [(''2021'', \<lparr>i_Year = Fin 2021, GDP = Fin (9 / 2), Inflation = Fin 0\<rparr>)]"
  by (simp add: wb_step_def ex_wb_gdp_def field2_def parseInt_2021 num_truthy_def
        safeParseFloat_indicator_values year_entry_def pos_toString_2021)

lemma wb_step_cpi:
  "wb_step [(''2021'', \<lparr>i_Year = Fin 2021, GDP = Fin (9 / 2), Inflation = Fin 0\<rparr>)] ex_wb_cpi
     = Inr [(''2021'', \<lparr>i_Year = Fin 2021, GDP = Fin (9 / 2), Inflation = Fin (31 / 5)\<rparr>)]"
  by (simp add: wb_step_def ex_wb_cpi_def field2_def parseInt_2021 num_truthy_def
        safeParseFloat_indicator_values year_entry_def pos_toString_2021)

lemma wb_step_per_capita:
  "wb_step [] ex_wb_per_capita = Inr [(''2021'', \<lparr>i_Year = Fin 2021, GDP = Fin 0, Inflation = Fin 0\<rparr>)]"
  by (simp add: wb_step_def ex_wb_per_capita_def field2_def parseInt_2021 num_truthy_def
        safeParseFloat_indicator_values year_entry_def pos_toString_2021)

lemma Object_values_2021: "Object_values [(''2021'', x)] = [x]"
  by (simp add: Object_values_def array_index_def is_digit_def hex_digit_def digits_value_def)

lemma wbData_example:
  "wbData (Arr [ex_wb_gdp, ex_wb_cpi]) = Inr [\<lparr>i_Year = Fin 2021, GDP = Fin (9 / 2), Inflation = Fin (31 / 5)\<rparr>]"
  by (simp add: wbData_def wb_step_gdp wb_step_cpi Object_values_2021 js_sort_def)

lemma wbData_per_capita:
  "wbData (Arr [ex_wb_per_capita]) = Inr [\<lparr>i_Year = Fin 2021, GDP = Fin 0, Inflation = Fin 0\<rparr>]"
  by (simp add: wbData_def wb_step_per_capita Object_values_2021 js_sort_def)

lemmas code_defs = code_includes_def flow_includes_def str_includes_def sublist_code

lemma formatted_step_gdp:
  "formatted_step [] ex_wb_gdp = Inr [(''2021'', \<lparr>i_Year = Fin 2021, GDP = Fin (9 / 2), Inflation = Fin 0\<rparr>)]"
  by (simp add: formatted_step_def ex_wb_gdp_def field2_def parseInt_2021 num_truthy_def
        parseFloat_indicator_values year_entry_def pos_toString_2021 code_defs)

lemma formatted_step_cpi:
  "formatted_step [(''2021'', \<lparr>i_Year = Fin 2021, GDP = Fin (9 / 2), Inflation = Fin 0\<rparr>)] ex_wb_cpi
     = Inr [(''2021'', \<lparr>i_Year = Fin 2021, GDP = Fin (9 / 2), Inflation = Fin (31 / 5)\<rparr>)]"
  by (simp add: formatted_step_def ex_wb_cpi_def field2_def parseInt_2021 num_truthy_def
        parseFloat_indicator_values year_entry_def pos_toString_2021 code_defs)

lemma formatted_step_per_capita:
  "formatted_step [] ex_wb_per_capita
     = Inr [(''2021'', \<lparr>i_Year = Fin 2021, GDP = Fin 3500, Inflation = Fin 0\<rparr>)]"
  by (simp add: formatted_step_def ex_wb_per_capita_def field2_def parseInt_2021 num_truthy_def
        parseFloat_indicator_values year_entry_def pos_toString_2021 code_defs)

lemma formattedWB_example:
  "formattedWB (Arr [ex_wb_gdp, ex_wb_cpi]) = Inr [\<lparr>i_Year = Fin 2021, GDP = Fin (9 / 2), Inflation = Fin (31 / 5)\<rparr>]"
  by (simp add: formattedWB_def formatted_step_gdp formatted_step_cpi Object_values_2021 js_sort_def)

lemma formattedWB_per_capita:
  "formattedWB (Arr [ex_wb_per_capita]) = Inr [\<lparr>i_Year = Fin 2021, GDP = Fin 3500, Inflation = Fin 0\<rparr>]"
  by (simp add: formattedWB_def formatted_step_per_capita Object_values_2021 js_sort_def)

lemma year_entry_obj_put: "year_entry (obj_put years (Number_toString y) r) y = r"
  by (simp add: year_entry_def map_of_obj_put)

lemma wb_step_Inr:
  assumes "wb_step years row = Inr years'"
    and "field2 row ''Year'' ''year_of_trade'' = Inr yv" and "parseInt yv = Inr y"
    and "num_truthy y" and "field2 row ''Indicator_Code'' ''indicator_code'' = Inr code"
  shows "\<exists>iv v. field row ''Indicator_Value'' = Inr iv \<and> safeParseFloat iv = Inr v
           \<and> GDP (year_entry years' y) =
               (if code = Str ''NY.GDP.MKTP.KD.ZG'' \<or> code = Str ''WB_WDI_NY_GDP_MKTP_KD_ZG''
                then v else GDP (year_entry years y))
           \<and> Inflation (year_entry years' y) =
               (if code = Str ''FP.CPI.TOTL.ZG'' \<or> code = Str ''WB_WDI_FP_CPI_TOTL_ZG''
                then v else Inflation (year_entry years y))"
proof -
  from assms obtain iv v where iv: "field row ''Indicator_Value'' = Inr iv" "safeParseFloat iv = Inr v"
    by (auto simp: wb_step_def bind_err_eq_Inr)
  with assms have "years' = obj_put years (Number_toString y)
      (let r = year_entry years y;
           r1 = (if code = Str ''NY.GDP.MKTP.KD.ZG'' \<or> code = Str ''WB_WDI_NY_GDP_MKTP_KD_ZG''
                 then r\<lparr>GDP := v\<rparr> else r);
           r2 = (if code = Str ''FP.CPI.TOTL.ZG'' \<or> code = Str ''WB_WDI_FP_CPI_TOTL_ZG''
                 then r1\<lparr>Inflation := v\<rparr> else r1)
       in r2)"
    by (simp add: wb_step_def Let_def)
  then have "GDP (year_entry years' y) =
               (if code = Str ''NY.GDP.MKTP.KD.ZG'' \<or> code = Str ''WB_WDI_NY_GDP_MKTP_KD_ZG''
                then v else GDP (year_entry years y))"
    and "Inflation (year_entry years' y) =
               (if code = Str ''FP.CPI.TOTL.ZG'' \<or> code = Str ''WB_WDI_FP_CPI_TOTL_ZG''
                then v else Inflation (year_entry years y))"
    by (simp_all add: year_entry_obj_put Let_def)
  with iv show ?thesis by blast
qed

lemma formatted_step_Inr:
  assumes "formatted_step years row = Inr years'"
    and "field2 row ''Year'' ''year_of_trade'' = Inr yv" and "parseInt yv = Inr y"
    and "num_truthy y" and "field2 row ''Indicator_Code'' ''indicator_code'' = Inr code"
  shows "\<exists>iv v g c. field2 row ''Indicator_Value'' ''indicator_value'' = Inr iv
           \<and> parseFloat iv = Inr v
           \<and> code_includes code ''GDP'' ''NY.GDP'' = Inr g
           \<and> code_includes code ''CPI'' ''FP.CPI'' = Inr c
           \<and> GDP (year_entry years' y) = (if g then v else GDP (year_entry years y))
           \<and> Inflation (year_entry years' y) = (if c then v else Inflation (year_entry years y))"
proof -
  from assms obtain iv v g c where iv: "field2 row ''Indicator_Value'' ''indicator_value'' = Inr iv"
    "parseFloat iv = Inr v" "code_includes code ''GDP'' ''NY.GDP'' = Inr g"
    "code_includes code ''CPI'' ''FP.CPI'' = Inr c"
    by (auto simp: formatted_step_def bind_err_eq_Inr)
  with assms have "years' = obj_put years (Number_toString y)
      (let r = year_entry years y;
           r1 = (if g then r\<lparr>GDP := v\<rparr> else r);
           r2 = (if c then r1\<lparr>Inflation := v\<rparr> else r1)
       in r2)"
    by (simp add: formatted_step_def Let_def)
  then have "GDP (year_entry years' y) = (if g then v else GDP (year_entry years y))"
    and "Inflation (year_entry years' y) = (if c then v else Inflation (year_entry years y))"
    by (simp_all add: year_entry_obj_put Let_def)
  with iv show ?thesis by blast
qed

lemma sublist_trans: "sublist a b \<Longrightarrow> sublist b c \<Longrightarrow> sublist a c"
  by (rule sublist_order.order_trans)

lemma code_includes_Str:
  "code_includes (Str s) ''GDP'' ''NY.GDP'' = Inr (str_includes s ''GDP'')"
  "code_includes (Str s) ''CPI'' ''FP.CPI'' = Inr (str_includes s ''CPI'')"
proof -
  have g: "sublist ''GDP'' ''NY.GDP''" and c: "sublist ''CPI'' ''FP.CPI''"
    by (simp_all add: sublist_code)
  have "sublist ''NY.GDP'' s \<Longrightarrow> sublist ''GDP'' s"
    using g by (rule sublist_trans)
  then show "code_includes (Str s) ''GDP'' ''NY.GDP'' = Inr (str_includes s ''GDP'')"
    by (cases s) (auto simp: code_includes_def flow_includes_def str_includes_def)
  have "sublist ''FP.CPI'' s \<Longrightarrow> sublist ''CPI'' s"
    using c by (rule sublist_trans)
  then show "code_includes (Str s) ''CPI'' ''FP.CPI'' = Inr (str_includes s ''CPI'')"
    by (cases s) (auto simp: code_includes_def flow_includes_def str_includes_def)
qed

lemma per_capita_fields:
  "field2 ex_wb_per_capita ''Year'' ''year_of_trade'' = Inr (Num (Fin 2021))"
  "field2 ex_wb_per_capita ''Indicator_Code'' ''indicator_code'' = Inr (Str ''NY.GDP.PCAP.CD'')"
  by (simp_all add: field2_def ex_wb_per_capita_def num_truthy_def)

text \<open>
  Claim C9, as the code has it. For a raw indicator row with a usable year, the
  version that merges the imported payload (\<^verbatim>\<open>wbData\<close>) writes the value into the GDP
  field of the year only when the code is exactly one of the two GDP spellings, and into
  the inflation field only when it is exactly one of the two CPI spellings; a row with
  any other code leaves both fields as they were. The version that merges the fetched
  payload (\<^verbatim>\<open>formattedWB\<close>) writes the value when the code contains the substring
  \<^verbatim>\<open>GDP\<close>, respectively \<^verbatim>\<open>CPI\<close>. In both versions the two example rows for 2021
  merge into the single record with GDP growth 4.5 and inflation 6.2.
\<close>

theorem indicator_code_matching:
  assumes "field2 row ''Year'' ''year_of_trade'' = Inr yv" and "parseInt yv = Inr y"
    and "num_truthy y" and "field2 row ''Indicator_Code'' ''indicator_code'' = Inr code"
  shows "(wb_step years row = Inr years' \<longrightarrow>
           (\<exists>iv v. field row ''Indicator_Value'' = Inr iv \<and> safeParseFloat iv = Inr v
              \<and> GDP (year_entry years' y) =
                  (if code = Str ''NY.GDP.MKTP.KD.ZG'' \<or> code = Str ''WB_WDI_NY_GDP_MKTP_KD_ZG''
                   then v else GDP (year_entry years y))
              \<and> Inflation (year_entry years' y) =
                  (if code = Str ''FP.CPI.TOTL.ZG'' \<or> code = Str ''WB_WDI_FP_CPI_TOTL_ZG''
                   then v else Inflation (year_entry years y))))
       \<and> (formatted_step years row = Inr years'' \<longrightarrow>
           (\<exists>iv v g c. field2 row ''Indicator_Value'' ''indicator_value'' = Inr iv
              \<and> parseFloat iv = Inr v
              \<and> code_includes code ''GDP'' ''NY.GDP'' = Inr g
              \<and> code_includes code ''CPI'' ''FP.CPI'' = Inr c
              \<and> GDP (year_entry years'' y) = (if g then v else GDP (year_entry years y))
              \<and> Inflation (year_entry years'' y) = (if c then v else Inflation (year_entry years y))))
       \<and> (\<forall>s. code_includes (Str s) ''GDP'' ''NY.GDP'' = Inr (str_includes s ''GDP'')
              \<and> code_includes (Str s) ''CPI'' ''FP.CPI'' = Inr (str_includes s ''CPI''))
       \<and> wbData (Arr [ex_wb_gdp, ex_wb_cpi]) =
           Inr [\<lparr>i_Year = Fin 2021, GDP = Fin 4.5, Inflation = Fin 6.2\<rparr>]
       \<and> formattedWB (Arr [ex_wb_gdp, ex_wb_cpi]) =
           Inr [\<lparr>i_Year = Fin 2021, GDP = Fin 4.5, Inflation = Fin 6.2\<rparr>]"
proof (intro conjI impI allI)
  assume "wb_step years row = Inr years'"
  from wb_step_Inr [OF this assms]
  show "\<exists>iv v. field row ''Indicator_Value'' = Inr iv \<and> safeParseFloat iv = Inr v
              \<and> GDP (year_entry years' y) =
                  (if code = Str ''NY.GDP.MKTP.KD.ZG'' \<or> code = Str ''WB_WDI_NY_GDP_MKTP_KD_ZG''
                   then v else GDP (year_entry years y))
              \<and> Inflation (year_entry years' y) =
                  (if code = Str ''FP.CPI.TOTL.ZG'' \<or> code = Str ''WB_WDI_FP_CPI_TOTL_ZG''
                   then v else Inflation (year_entry years y))" .
next
  assume "formatted_step years row = Inr years''"
  from formatted_step_Inr [OF this assms]
  show "\<exists>iv v g c. field2 row ''Indicator_Value'' ''indicator_value'' = Inr iv
              \<and> parseFloat iv = Inr v
              \<and> code_includes code ''GDP'' ''NY.GDP'' = Inr g
              \<and> code_includes code ''CPI'' ''FP.CPI'' = Inr c
              \<and> GDP (year_entry years'' y) = (if g then v else GDP (year_entry years y))
              \<and> Inflation (year_entry years'' y) = (if c then v else Inflation (year_entry years y))" .
next
  fix s
  show "code_includes (Str s) ''GDP'' ''NY.GDP'' = Inr (str_includes s ''GDP'')"
    and "code_includes (Str s) ''CPI'' ''FP.CPI'' = Inr (str_includes s ''CPI'')"
    by (rule code_includes_Str)+
next
  show "wbData (Arr [ex_wb_gdp, ex_wb_cpi]) =
           Inr [\<lparr>i_Year = Fin 2021, GDP = Fin 4.5, Inflation = Fin 6.2\<rparr>]"
    using wbData_example by simp
  show "formattedWB (Arr [ex_wb_gdp, ex_wb_cpi]) =
           Inr [\<lparr>i_Year = Fin 2021, GDP = Fin 4.5, Inflation = Fin 6.2\<rparr>]"
    using formattedWB_example by simp
qed

theorem indicator_code_matching_witness:
  "field2 ex_wb_per_capita ''Year'' ''year_of_trade'' = Inr (Num (Fin 2021))
   \<and> parseInt (Num (Fin 2021)) = Inr (Fin 2021)
   \<and> num_truthy (Fin 2021)
   \<and> field2 ex_wb_per_capita ''Indicator_Code'' ''indicator_code'' = Inr (Str ''NY.GDP.PCAP.CD'')
   \<and> wb_step [] ex_wb_per_capita =
       Inr [(''2021'', \<lparr>i_Year = Fin 2021, GDP = Fin 0, Inflation = Fin 0\<rparr>)]
   \<and> GDP (year_entry [(''2021'', \<lparr>i_Year = Fin 2021, GDP = Fin 0, Inflation = Fin 0\<rparr>)] (Fin 2021))
       = GDP (year_entry [] (Fin 2021))
   \<and> formatted_step [] ex_wb_per_capita =
       Inr [(''2021'', \<lparr>i_Year = Fin 2021, GDP = Fin 3500, Inflation = Fin 0\<rparr>)]
   \<and> GDP (year_entry [(''2021'', \<lparr>i_Year = Fin 2021, GDP = Fin 3500, Inflation = Fin 0\<rparr>)]
            (Fin 2021))
       = (if str_includes ''NY.GDP.PCAP.CD'' ''GDP'' then Fin 3500 else GDP (year_entry [] (Fin 2021)))
   \<and> code_includes (Str ''NY.GDP.PCAP.CD'') ''GDP'' ''NY.GDP'' = Inr (str_includes ''NY.GDP.PCAP.CD'' ''GDP'')
   \<and> wbData (Arr [ex_wb_gdp, ex_wb_cpi]) =
       Inr [\<lparr>i_Year = Fin 2021, GDP = Fin 4.5, Inflation = Fin 6.2\<rparr>]"
proof -
  have nt: "num_truthy (Fin 2021)" by (simp add: num_truthy_def)
  note t = indicator_code_matching
             [OF per_capita_fields(1) parseInt_2021 nt per_capita_fields(2),
              of "[]" "[(''2021'', \<lparr>i_Year = Fin 2021, GDP = Fin 0, Inflation = Fin 0\<rparr>)]"
                 "[(''2021'', \<lparr>i_Year = Fin 2021, GDP = Fin 3500, Inflation = Fin 0\<rparr>)]"]
  note wb = t [THEN conjunct1, THEN mp, OF wb_step_per_capita]
  note fm = t [THEN conjunct2, THEN conjunct1, THEN mp, OF formatted_step_per_capita]
  note cs = t [THEN conjunct2, THEN conjunct2, THEN conjunct1]
  note w = t [THEN conjunct2, THEN conjunct2, THEN conjunct2, THEN conjunct1]
  from cs have c: "code_includes (Str ''NY.GDP.PCAP.CD'') ''GDP'' ''NY.GDP'' = Inr (str_includes ''NY.GDP.PCAP.CD'' ''GDP'')"
    by (elim allE conjE)
  from wb have g: "GDP (year_entry [(''2021'', \<lparr>i_Year = Fin 2021, GDP = Fin 0, Inflation = Fin 0\<rparr>)] (Fin 2021))
       = GDP (year_entry [] (Fin 2021))"
    by (elim exE conjE) simp
  have iv: "field2 ex_wb_per_capita ''Indicator_Value'' ''indicator_value'' = Inr (Str ''3500'')"
    by (simp add: field2_def ex_wb_per_capita_def)
  from fm have f: "GDP (year_entry [(''2021'', \<lparr>i_Year = Fin 2021, GDP = Fin 3500, Inflation = Fin 0\<rparr>)]
            (Fin 2021))
       = (if str_includes ''NY.GDP.PCAP.CD'' ''GDP'' then Fin 3500 else GDP (year_entry [] (Fin 2021)))"
    by (elim exE conjE) (clarsimp simp: iv c parseFloat_indicator_values)
  from nt per_capita_fields parseInt_2021 wb_step_per_capita formatted_step_per_capita c w g f
  show ?thesis by (intro conjI)
qed

text \<open>
  Claim C9 as stated fails in the version that merges the fetched payload: the code
  \<^verbatim>\<open>NY.GDP.PCAP.CD\<close> (GDP per capita) is neither of the two known spellings of the
  growth indicator, and its value is written into the GDP field all the same.
\<close>

theorem formattedWB_matches_substring:
  "field2 ex_wb_per_capita ''Indicator_Code'' ''indicator_code'' = Inr (Str ''NY.GDP.PCAP.CD'')
   \<and> formattedWB (Arr [ex_wb_per_capita]) =
       Inr [\<lparr>i_Year = Fin 2021, GDP = Fin 3500, Inflation = Fin 0\<rparr>]
   \<and> wbData (Arr [ex_wb_per_capita]) =
       Inr [\<lparr>i_Year = Fin 2021, GDP = Fin 0, Inflation = Fin 0\<rparr>]"
  using per_capita_fields(2) formattedWB_per_capita wbData_per_capita by (intro conjI)

subsection \<open>What holds of the concentration risk and of the waterfall\<close>

text \<open>
  On records with finite non-negative values, string flows and ordinary partner names,
  the partner totals add up to the sum of all values, the three largest of them to no
  more than that, and the total volume to no less once every flow contains
  \<^verbatim>\<open>Export\<close> or \<^verbatim>\<open>Import\<close>: the concentration risk then lies between 0 and 100.
\<close>

lemma plain_recordD:
  assumes "plain_record row"
  shows "\<exists>v p f. Value row = Fin v \<and> 0 \<le> v \<and> value_of row = v \<and> Partner row = Str p
           \<and> \<not> inherited p \<and> Flow row = Str f"
  using assms
  by (cases "Value row"; cases "Partner row"; cases "Flow row")
     (auto simp: plain_record_def value_of_def)

lemma kpi_fold_plain:
  assumes "list_all plain_record rows"
  shows "\<exists>e i. fold_err kpi_step (Fin e0, Fin i0) rows = Inr (Fin e, Fin i)
           \<and> e0 \<le> e \<and> i0 \<le> i
           \<and> (list_all (\<lambda>r. flow_has ''Export'' r \<or> flow_has ''Import'' r) rows \<longrightarrow>
                e0 + i0 + sum_list (map value_of rows) \<le> e + i)"
  using assms
proof (induction rows arbitrary: e0 i0)
  case Nil
  then show ?case by simp
next
  case (Cons row rows)
  from Cons.prems have pr: "plain_record row" and rest: "list_all plain_record rows" by simp_all
  from plain_recordD [OF pr] obtain v p f where
    v: "Value row = Fin v" "0 \<le> v" "value_of row = v" and f: "Flow row = Str f" by blast
  define e1 where "e1 = (if str_includes f ''Export'' then e0 + v else e0)"
  define i1 where "i1 = (if str_includes f ''Import'' then i0 + v else i0)"
  have step: "kpi_step (Fin e0, Fin i0) row = Inr (Fin e1, Fin i1)"
    by (simp add: kpi_step_def flow_includes_def f v e1_def i1_def)
  from Cons.IH [OF rest, of e1 i1] obtain e i where
    r: "fold_err kpi_step (Fin e1, Fin i1) rows = Inr (Fin e, Fin i)" "e1 \<le> e" "i1 \<le> i"
       "list_all (\<lambda>r. flow_has ''Export'' r \<or> flow_has ''Import'' r) rows \<longrightarrow>
          e1 + i1 + sum_list (map value_of rows) \<le> e + i"
    by blast
  have mono: "e0 \<le> e1" "i0 \<le> i1" using v(2) by (simp_all add: e1_def i1_def)
  have fh: "flow_has ''Export'' row = str_includes f ''Export''"
           "flow_has ''Import'' row = str_includes f ''Import''"
    by (simp_all add: flow_has_def flow_includes_def f)
  have cover: "flow_has ''Export'' row \<or> flow_has ''Import'' row \<Longrightarrow> e0 + i0 + v \<le> e1 + i1"
    using v(2) by (auto simp: fh e1_def i1_def)
  show ?case
    using step r mono cover v(3) by (auto intro!: exI [of _ e] exI [of _ i])
qed

lemma map_of_nonneg:
  "list_all (\<lambda>kv. nonneg_total (snd kv)) pt \<Longrightarrow> map_of pt k = Some t \<Longrightarrow> nonneg_total t"
  by (induction pt) (auto split: if_splits)

lemma obj_put_nonneg:
  "list_all (\<lambda>kv. nonneg_total (snd kv)) pt \<Longrightarrow> nonneg_total t \<Longrightarrow>
     list_all (\<lambda>kv. nonneg_total (snd kv)) (obj_put pt k t)"
  by (induction pt k t rule: obj_put.induct) auto

lemma obj_put_sum:
  "sum_list (map (\<lambda>kv. total_value (snd kv)) (obj_put pt k t)) =
     sum_list (map (\<lambda>kv. total_value (snd kv)) pt)
       - (case map_of pt k of Some old \<Rightarrow> total_value old | None \<Rightarrow> 0) + total_value t"
  by (induction pt k t rule: obj_put.induct) auto

lemma nonneg_totalD: "nonneg_total t \<Longrightarrow> \<exists>x. t = Total (Fin x) \<and> 0 \<le> x"
  by (cases t rule: nonneg_total.cases) auto

lemma nonneg_total_value: "nonneg_total t \<Longrightarrow> 0 \<le> total_value t"
  by (drule nonneg_totalD) auto

lemma partnerTotals_step_plain:
  assumes "plain_record row" and "list_all (\<lambda>kv. nonneg_total (snd kv)) pt"
  shows "\<exists>pt'. partnerTotals_step pt row = Inr pt'
           \<and> list_all (\<lambda>kv. nonneg_total (snd kv)) pt'
           \<and> sum_list (map (\<lambda>kv. total_value (snd kv)) pt') =
               sum_list (map (\<lambda>kv. total_value (snd kv)) pt) + value_of row"
proof -
  from plain_recordD [OF assms(1)] obtain v p where
    v: "Value row = Fin v" "0 \<le> v" "value_of row = v" and p: "Partner row = Str p" "\<not> inherited p"
    by blast
  define c where "c = (case map_of pt p of Some old \<Rightarrow> total_value old | None \<Rightarrow> 0)"
  have cur: "(case map_of pt p of
                Some t \<Rightarrow> if total_truthy t then t else Total (Fin 0)
              | None \<Rightarrow> if inherited p then NotNumeric else Total (Fin 0)) = Total (Fin c)"
    and c0: "0 \<le> c"
  proof -
    show "(case map_of pt p of
                Some t \<Rightarrow> if total_truthy t then t else Total (Fin 0)
              | None \<Rightarrow> if inherited p then NotNumeric else Total (Fin 0)) = Total (Fin c)"
    proof (cases "map_of pt p")
      case None
      with p(2) show ?thesis by (simp add: c_def)
    next
      case (Some t)
      from map_of_nonneg [OF assms(2) Some] obtain x where "t = Total (Fin x)" "0 \<le> x"
        using nonneg_totalD by blast
      with Some show ?thesis by (auto simp: c_def num_truthy_def)
    qed
    show "0 \<le> c"
    proof (cases "map_of pt p")
      case None
      then show ?thesis by (simp add: c_def)
    next
      case (Some t)
      from map_of_nonneg [OF assms(2) Some] obtain x where "t = Total (Fin x)" "0 \<le> x"
        using nonneg_totalD by blast
      with Some show ?thesis by (simp add: c_def)
    qed
  qed
  have np: "p \<noteq> ''__proto__''"
    using p(2) by (auto simp: inherited_def object_prototype_keys_def)
  have step: "partnerTotals_step pt row = Inr (obj_put pt p (Total (Fin (c + v))))"
    by (simp add: partnerTotals_step_def p(1) cur v(1) np Let_def)
  have nn: "list_all (\<lambda>kv. nonneg_total (snd kv)) (obj_put pt p (Total (Fin (c + v))))"
    using assms(2) c0 v(2) by (intro obj_put_nonneg) simp_all
  have "sum_list (map (\<lambda>kv. total_value (snd kv)) (obj_put pt p (Total (Fin (c + v))))) =
          sum_list (map (\<lambda>kv. total_value (snd kv)) pt) + v"
    by (simp add: obj_put_sum c_def)
  with step nn v(3) show ?thesis by simp
qed

lemma partnerTotals_fold_plain:
  assumes "list_all plain_record rows" and "list_all (\<lambda>kv. nonneg_total (snd kv)) pt"
  shows "\<exists>pt'. fold_err partnerTotals_step pt rows = Inr pt'
           \<and> list_all (\<lambda>kv. nonneg_total (snd kv)) pt'
           \<and> sum_list (map (\<lambda>kv. total_value (snd kv)) pt') =
               sum_list (map (\<lambda>kv. total_value (snd kv)) pt) + sum_list (map value_of rows)"
  using assms
proof (induction rows arbitrary: pt)
  case Nil
  then show ?case by simp
next
  case (Cons row rows)
  from Cons.prems have pr: "plain_record row" and rest: "list_all plain_record rows" by simp_all
  from partnerTotals_step_plain [OF pr Cons.prems(2)] obtain pt1 where
    s: "partnerTotals_step pt row = Inr pt1" "list_all (\<lambda>kv. nonneg_total (snd kv)) pt1"
       "sum_list (map (\<lambda>kv. total_value (snd kv)) pt1) =
          sum_list (map (\<lambda>kv. total_value (snd kv)) pt) + value_of row"
    by blast
  from Cons.IH [OF rest s(2)] obtain pt' where
    "fold_err partnerTotals_step pt1 rows = Inr pt'" "list_all (\<lambda>kv. nonneg_total (snd kv)) pt'"
    "sum_list (map (\<lambda>kv. total_value (snd kv)) pt') =
       sum_list (map (\<lambda>kv. total_value (snd kv)) pt1) + sum_list (map value_of rows)"
    by blast
  with s show ?case by simp
qed

lemma mset_Object_values: "mset (Object_values obj) = mset (map snd obj)"
proof -
  have "mset (map snd (concat (map (\<lambda>(k, v). case array_index k of None \<Rightarrow> [] | Some i \<Rightarrow> [(i, v)]) obj)))
          + mset (map snd (filter (\<lambda>(k, v). array_index k = None) obj)) = mset (map snd obj)"
    by (induction obj) (auto split: option.splits)
  then show ?thesis by (simp add: Object_values_def)
qed

lemma mset_insort_cmp: "mset (insort_cmp cmp x ys) = add_mset x (mset ys)"
  by (induction ys) auto

lemma mset_js_sort: "mset (js_sort cmp xs) = mset xs"
  by (induction xs) (simp_all add: js_sort_def mset_insort_cmp)

lemma sum_take_le:
  fixes f :: "'a \<Rightarrow> real"
  assumes "list_all (\<lambda>x. 0 \<le> f x) xs"
  shows "0 \<le> sum_list (map f (take n xs)) \<and> sum_list (map f (take n xs)) \<le> sum_list (map f xs)"
proof -
  have d: "0 \<le> sum_list (map f (drop n xs))"
    using assms by (intro sum_list_nonneg) (auto simp: list_all_iff dest: in_set_dropD)
  have t: "0 \<le> sum_list (map f (take n xs))"
    using assms by (intro sum_list_nonneg) (auto simp: list_all_iff dest: in_set_takeD)
  have "sum_list (map f xs) = sum_list (map f (take n xs)) + sum_list (map f (drop n xs))"
    by (metis append_take_drop_id map_append sum_list_append)
  with d t show ?thesis by simp
qed

lemma foldl_total_plus:
  "list_all nonneg_total ts \<Longrightarrow>
     foldl total_plus (Total (Fin a)) ts = Total (Fin (a + sum_list (map total_value ts)))"
proof (induction ts arbitrary: a)
  case Nil
  then show ?case by simp
next
  case (Cons t ts)
  from Cons.prems obtain x where "t = Total (Fin x)" using nonneg_totalD by auto
  with Cons show ?case by (simp add: add.assoc)
qed

lemma top3Sum_plain:
  assumes "list_all (\<lambda>kv. nonneg_total (snd kv)) pt"
  shows "\<exists>t. top3Sum pt = Total (Fin t) \<and> 0 \<le> t
           \<and> t \<le> sum_list (map (\<lambda>kv. total_value (snd kv)) pt)"
proof -
  define sorted' where
    "sorted' = js_sort (\<lambda>a b. js_sub (to_number b) (to_number a)) (Object_values pt)"
  have m: "mset sorted' = mset (map snd pt)"
    by (simp add: sorted'_def mset_js_sort mset_Object_values)
  have "set sorted' = snd ` set pt"
    using m by (metis set_mset_mset set_map)
  with assms have nn: "list_all nonneg_total sorted'"
    by (auto simp: list_all_iff)
  then have nn0: "list_all (\<lambda>t. 0 \<le> total_value t) sorted'"
    by (auto simp: list_all_iff intro: nonneg_total_value)
  have nn3: "list_all nonneg_total (take 3 sorted')"
    using nn by (auto simp: list_all_iff dest: in_set_takeD)
  have s: "sum_list (map total_value sorted') = sum_list (map (\<lambda>kv. total_value (snd kv)) pt)"
  proof -
    have "sum_list (map total_value sorted') = sum_mset (image_mset total_value (mset sorted'))"
      by (metis mset_map sum_mset_sum_list)
    also have "\<dots> = sum_mset (image_mset total_value (mset (map snd pt)))" by (simp only: m)
    also have "\<dots> = sum_list (map total_value (map snd pt))"
      by (metis mset_map sum_mset_sum_list)
    finally show ?thesis by (simp add: comp_def)
  qed
  have "top3Sum pt = Total (Fin (0 + sum_list (map total_value (take 3 sorted'))))"
    unfolding top3Sum_def sorted'_def [symmetric] by (rule foldl_total_plus [OF nn3])
  with sum_take_le [OF nn0, of 3] s show ?thesis by simp
qed

lemma concentrationRisk_bounded:
  assumes "list_all plain_record rows"
    and "list_all (\<lambda>r. flow_has ''Export'' r \<or> flow_has ''Import'' r) rows"
  shows "\<exists>r. concentrationRisk rows = Inr (Fin r) \<and> 0 \<le> r \<and> r \<le> 100"
proof -
  from kpi_fold_plain [OF assms(1), of 0 0] assms(2) obtain e i where
    k: "kpi_totals rows = Inr (Fin e, Fin i)" "0 \<le> e" "0 \<le> i"
       "sum_list (map value_of rows) \<le> e + i"
    by (auto simp: kpi_totals_def)
  from partnerTotals_fold_plain [OF assms(1), of "[]"] obtain pt where
    p: "fold_err partnerTotals_step [] rows = Inr pt" "list_all (\<lambda>kv. nonneg_total (snd kv)) pt"
       "sum_list (map (\<lambda>kv. total_value (snd kv)) pt) = sum_list (map value_of rows)"
    by auto
  from top3Sum_plain [OF p(2)] p(3) obtain t where
    t: "top3Sum pt = Total (Fin t)" "0 \<le> t" "t \<le> sum_list (map value_of rows)"
    by auto
  show ?thesis
  proof (cases "0 < e + i")
    case True
    from t(3) k(4) have "t \<le> e + i" by simp
    with True t(2) have "0 \<le> t / (e + i) * 100" "t / (e + i) * 100 \<le> 100"
      by (simp_all add: divide_le_eq)
    moreover from True have "concentrationRisk rows = Inr (Fin (t / (e + i) * 100))"
      by (simp add: concentrationRisk_def k(1) p(1) t(1))
    ultimately show ?thesis by blast
  next
    case False
    then have "concentrationRisk rows = Inr (Fin 0)"
      by (simp add: concentrationRisk_def k(1) p(1))
    then show ?thesis by simp
  qed
qed

text \<open>Whatever the records, a total volume that is not above 0 gives the risk 0.\<close>

lemma concentrationRisk_zero_volume:
  assumes "kpi_totals rows = Inr (ex, im)" and "\<not> js_gt (js_add ex im) (Fin 0)"
    and "concentrationRisk rows = Inr r"
  shows "r = Fin 0"
  using assms by (auto simp: concentrationRisk_def bind_err_eq_Inr)

lemma concentrationRisk_kpi_zero_volume:
  "\<not> js_gt (js_add (kpi_exports k) (kpi_imports k)) (Fin 0) \<Longrightarrow>
     concentrationRisk_kpi k partners = Fin 0"
  by (simp add: concentrationRisk_kpi_def Let_def)

text \<open>
  The waterfall has three bars, the second is the negated import total, the third is the
  sum of the first two, and its fill is the colour of exports exactly when the net
  balance is above 0. In the version that reads the precomputed payload the third bar is
  the payload's \<^verbatim>\<open>kpi.net\<close>.
\<close>

lemma waterfall_shape:
  "length (waterfall ex im) = 3
   \<and> value' (waterfall ex im ! 0) = ex
   \<and> value' (waterfall ex im ! 1) = js_neg im
   \<and> value' (waterfall ex im ! 2) = js_add (value' (waterfall ex im ! 0)) (value' (waterfall ex im ! 1))
   \<and> (fill (waterfall ex im ! 2) = COLORS_export \<longleftrightarrow> js_gt (js_sub ex im) (Fin 0))
   \<and> (fill (waterfall ex im ! 2) = COLORS_import \<longleftrightarrow> \<not> js_gt (js_sub ex im) (Fin 0))"
  by (simp add: waterfall_def js_sub_def COLORS_export_def COLORS_import_def)

lemma waterfall_kpi_shape:
  "length (waterfall_kpi k) = 3
   \<and> value' (waterfall_kpi k ! 0) = kpi_exports k
   \<and> value' (waterfall_kpi k ! 1) = js_neg (kpi_imports k)
   \<and> value' (waterfall_kpi k ! 2) = kpi_net k
   \<and> (fill (waterfall_kpi k ! 2) = COLORS_export \<longleftrightarrow> js_gt (kpi_net k) (Fin 0))"
  by (simp add: waterfall_kpi_def COLORS_export_def COLORS_import_def)

end
